theory Spec2Isabelle
  imports Complex_Main "HOL-Library.AList"
begin

section \<open>Python values\<close>

text \<open>
  The documents handled by MSPileup are JSON-like Python dictionaries. A Python float is
  a rational number, one of the two infinities, or NaN; the only float operations of the
  code are the comparisons with the integers 0 and 1, which Python performs exactly.
\<close>

datatype pyfloat = Finite rat | PosInf | NegInf | NaN

datatype pyval =
    PNone
  | PBool bool
  | PInt int
  | PFloat pyfloat
  | PStr string
  | PList "pyval list"
  | PDict "(string \<times> pyval) list"
  | PObjectId nat

text \<open>
  A dictionary is an association list in insertion order, the order in which Python
  iterates over it. \<open>d.get(k, dflt)\<close> is \<open>pdict_get\<close>, \<open>d[k] = v\<close> is
  \<open>AList.update\<close> (in place for a present key, appended for a new one) and
  \<open>d.pop(k, None)\<close> is \<open>AList.delete\<close>.
\<close>

type_synonym pydict = "(string \<times> pyval) list"

definition pdict_get :: "pydict \<Rightarrow> string \<Rightarrow> pyval \<Rightarrow> pyval" where
  "pdict_get d k dflt = (case map_of d k of None \<Rightarrow> dflt | Some v \<Rightarrow> v)"

datatype pytype = TNone | TBool | TInt | TFloat | TStr | TList | TDict | TObjectId

fun type_of :: "pyval \<Rightarrow> pytype" where
  "type_of PNone = TNone"
| "type_of (PBool b) = TBool"
| "type_of (PInt i) = TInt"
| "type_of (PFloat f) = TFloat"
| "type_of (PStr s) = TStr"
| "type_of (PList xs) = TList"
| "type_of (PDict d) = TDict"
| "type_of (PObjectId n) = TObjectId"

text \<open>Python's \<open>isinstance\<close>: \<open>bool\<close> is a subclass of \<open>int\<close>.\<close>

definition isinstance :: "pyval \<Rightarrow> pytype \<Rightarrow> bool" where
  "isinstance v t = (type_of v = t \<or> (type_of v = TBool \<and> t = TInt))"

text \<open>Truth value of a Python object, as tested by \<open>if not x\<close>.\<close>

fun truthy :: "pyval \<Rightarrow> bool" where
  "truthy PNone = False"
| "truthy (PBool b) = b"
| "truthy (PInt i) = (i \<noteq> 0)"
| "truthy (PFloat f) = (f \<noteq> Finite 0)"
| "truthy (PStr s) = (s \<noteq> [])"
| "truthy (PList xs) = (xs \<noteq> [])"
| "truthy (PDict d) = (d \<noteq> [])"
| "truthy (PObjectId n) = True"

text \<open>\<open>val > n\<close> and \<open>val < n\<close> for a float \<open>val\<close> and an integer \<open>n\<close>; every
  comparison with NaN is false.\<close>

fun float_gt :: "pyfloat \<Rightarrow> int \<Rightarrow> bool" where
  "float_gt (Finite r) n = (of_int n < r)"
| "float_gt PosInf n = True"
| "float_gt NegInf n = False"
| "float_gt NaN n = False"

fun float_lt :: "pyfloat \<Rightarrow> int \<Rightarrow> bool" where
  "float_lt (Finite r) n = (r < of_int n)"
| "float_lt PosInf n = False"
| "float_lt NegInf n = True"
| "float_lt NaN n = False"

section \<open>The environment: clock and dataset lexicon\<close>

text \<open>
  Modelled from the spec: \<open>Utils.Timers.gmtimeSeconds\<close> is not part of the sources at
  hand; the spec describes it as the current UTC epoch seconds. The clock is an oracle
  \<open>time_at\<close> giving the value of each successive reading and a counter of the readings
  made so far.

  The same record holds the document store, introduced below: the documents of the
  collection, the counter from which fresh object identifiers are drawn, and the script
  of the coming store round trips (\<open>Some m\<close>: the driver raises an error with text
  \<open>m\<close>; \<open>None\<close> or an exhausted script: the round trip goes through).
\<close>

record world =
  stored :: "pydict list"
  next_id :: nat
  faults :: "string option list"
  time_at :: "nat \<Rightarrow> int"
  reads :: nat

text \<open>Modelled from the spec: \<open>gmtimeSeconds()\<close>, the current UTC epoch seconds, is the
  next reading of the clock.\<close>

definition gmtimeSeconds :: "world \<Rightarrow> int \<times> world" where
  "gmtimeSeconds w = (time_at w (reads w), w\<lparr>reads := Suc (reads w)\<rparr>)"

text \<open>
  \<open>WMCore.Lexicon.dataset\<close> is not part of the sources at hand either. Every function
  below takes it as the parameter \<open>ds\<close>: \<open>ds s\<close> holds when \<open>dataset(s)\<close> returns
  and fails when it raises \<open>AssertionError\<close>. The theorems hold for every such
  predicate.
\<close>

text \<open>Modelled from the spec: \<open>str.split\<close> on one separator, used by the pattern below.\<close>

fun split_on :: "char \<Rightarrow> string \<Rightarrow> string list" where
  "split_on c [] = [[]]"
| "split_on c (x # xs) =
     (if x = c then [] # split_on c xs
      else (case split_on c xs of [] \<Rightarrow> [[x]] | s # ss \<Rightarrow> (x # s) # ss))"

text \<open>Modelled from the spec: the dataset-name pattern \<open>/primary/processed/tier\<close>, three
  non-empty segments after a leading slash; it is used only to run the model on concrete
  inputs.\<close>

definition dataset_pattern :: "string \<Rightarrow> bool" where
  "dataset_pattern s =
     (case split_on CHR ''/'' s of
        [e, primary, processed, tier] \<Rightarrow>
          e = [] \<and> primary \<noteq> [] \<and> processed \<noteq> [] \<and> tier \<noteq> []
      | _ \<Rightarrow> False)"

section \<open>MSPileupObj: schema, construction and validation\<close>

text \<open>\<open>MSPileupObj.schema\<close>: for each attribute its default value and expected type.\<close>

definition schema :: "(string \<times> (pyval \<times> pytype)) list" where
  "schema =
     [(''pileupName'', (PStr '''', TStr)),
      (''pileupType'', (PStr '''', TStr)),
      (''insertTime'', (PInt 0, TInt)),
      (''lastUpdateTime'', (PInt 0, TInt)),
      (''expectedRSEs'', (PList [], TList)),
      (''currentRSEs'', (PList [], TList)),
      (''fullReplicas'', (PInt 0, TInt)),
      (''campaigns'', (PList [], TList)),
      (''containerFraction'', (PFloat (Finite 1), TFloat)),
      (''replicationGrouping'', (PStr '''', TStr)),
      (''activatedOn'', (PInt 0, TInt)),
      (''deactivatedOn'', (PInt 0, TInt)),
      (''active'', (PBool False, TBool)),
      (''pileupSize'', (PInt 0, TInt)),
      (''ruleList'', (PList [], TList))]"

text \<open>
  The messages of \<open>validate\<close> are f-strings; a message is kept as its template with the
  interpolated values, the rendering of the values as text is left out. The logger calls
  are not modelled.
\<close>

datatype vmsg =
    NoMessage
  | KeysNotEqual "string set" "string set"
  | NotInSchema string
  | WrongType string pytype pytype
  | NotDataset pyval
  | BadPileupType pyval
  | BadReplicationGrouping pyval
  | FractionOutOfRange pyval
  | NotInValidRSEs string pyval "string list"

record MSPileupObj =
  data :: pydict
  validRSEs :: "string list"

text \<open>\<open>rse not in self.validRSEs\<close>: the valid RSEs are strings, and only a string
  equals a string.\<close>

fun rse_in :: "pyval \<Rightarrow> string list \<Rightarrow> bool" where
  "rse_in (PStr s) valid = (s \<in> set valid)"
| "rse_in v valid = False"

fun rse_loop :: "string list \<Rightarrow> pyval list \<Rightarrow> bool" where
  "rse_loop valid [] = True"
| "rse_loop valid (rse # rest) = (if \<not> rse_in rse valid then False else rse_loop valid rest)"

definition validateRSEs :: "MSPileupObj \<Rightarrow> pyval list \<Rightarrow> bool" where
  "validateRSEs self rseList =
     (if rseList = map PStr (validRSEs self) then True
      else rse_loop (validRSEs self) rseList)"

text \<open>
  The body of the loop of \<open>validate\<close> for one item: \<open>Some m\<close> is the early
  \<open>return False, m\<close>, \<open>None\<close> lets the loop go on. The domain checks run after the
  type check, so \<open>pileupName\<close> is a string, \<open>containerFraction\<close> a float and the RSE
  fields are lists when their checks are reached; the other cases of the three helper
  functions are never evaluated.
\<close>

fun dataset_fails :: "(string \<Rightarrow> bool) \<Rightarrow> pyval \<Rightarrow> bool" where
  "dataset_fails ds (PStr s) = (\<not> ds s)"
| "dataset_fails ds v = False"

fun fraction_outside :: "pyval \<Rightarrow> bool" where
  "fraction_outside (PFloat f) = (float_gt f 1 \<or> float_lt f 0)"
| "fraction_outside v = False"

fun rses_invalid :: "MSPileupObj \<Rightarrow> pyval \<Rightarrow> bool" where
  "rses_invalid self (PList rseList) = (\<not> validateRSEs self rseList)"
| "rses_invalid self v = False"

definition check_item :: "(string \<Rightarrow> bool) \<Rightarrow> MSPileupObj \<Rightarrow> string \<Rightarrow> pyval \<Rightarrow> vmsg option" where
  "check_item ds self key val =
     (case map_of schema key of
        None \<Rightarrow> Some (NotInSchema key)
      | Some (dflt, stype) \<Rightarrow>
          if \<not> isinstance val stype then Some (WrongType key stype (type_of val))
          else if key = ''pileupName'' \<and> dataset_fails ds val then Some (NotDataset val)
          else if key = ''pileupType'' \<and> val \<notin> set [PStr ''classic'', PStr ''premix'']
            then Some (BadPileupType val)
          else if key = ''replicationGrouping'' \<and> val \<notin> set [PStr ''DATASET'', PStr ''ALL'']
            then Some (BadReplicationGrouping val)
          else if key = ''containerFraction'' \<and> fraction_outside val
            then Some (FractionOutOfRange val)
          else if (key = ''expectedRSEs'' \<or> key = ''currentRSEs'') \<and> rses_invalid self val
            then Some (NotInValidRSEs key val (validRSEs self))
          else None)"

fun validate_items :: "(string \<Rightarrow> bool) \<Rightarrow> MSPileupObj \<Rightarrow> pydict \<Rightarrow> bool \<times> vmsg" where
  "validate_items ds self [] = (True, NoMessage)"
| "validate_items ds self ((key, val) # rest) =
     (case check_item ds self key val of
        Some m \<Rightarrow> (False, m)
      | None \<Rightarrow> validate_items ds self rest)"

text \<open>\<open>validate(self, pdict=None)\<close>: an argument that is \<open>None\<close> or empty
  (\<open>if not pdict\<close>) is replaced by the object's own data.\<close>

definition validate :: "(string \<Rightarrow> bool) \<Rightarrow> MSPileupObj \<Rightarrow> pydict option \<Rightarrow> bool \<times> vmsg" where
  "validate ds self arg =
     (let pdict = (case arg of None \<Rightarrow> data self
                   | Some p \<Rightarrow> if p = [] then data self else p)
      in if set (map fst pdict) \<noteq> set (map fst schema)
         then (False, KeysNotEqual (set (map fst pdict)) (set (map fst schema)))
         else validate_items ds self pdict)"

text \<open>
  The dictionary literal of \<open>__init__\<close>. Its values are evaluated in order, and each of
  the four \<open>gmtimeSeconds()\<close> defaults is evaluated whether or not the key is present:
  \<open>t1\<close> to \<open>t4\<close> are these four readings.
\<close>

definition init_data :: "pydict \<Rightarrow> int \<Rightarrow> int \<Rightarrow> int \<Rightarrow> int \<Rightarrow> pydict" where
  "init_data pdict t1 t2 t3 t4 =
     [(''pileupName'', pdict_get pdict ''pileupName'' (PStr '''')),
      (''pileupType'', pdict_get pdict ''pileupType'' (PStr '''')),
      (''insertTime'', pdict_get pdict ''insertTime'' (PInt t1)),
      (''lastUpdateTime'', pdict_get pdict ''lastUpdateTime'' (PInt t2)),
      (''expectedRSEs'', pdict_get pdict ''expectedRSEs'' (PList [])),
      (''currentRSEs'', pdict_get pdict ''currentRSEs'' (PList [])),
      (''fullReplicas'', pdict_get pdict ''fullReplicas'' (PInt 0)),
      (''campaigns'', pdict_get pdict ''campaigns'' (PList [])),
      (''containerFraction'', pdict_get pdict ''containerFraction'' (PFloat (Finite 1))),
      (''replicationGrouping'', pdict_get pdict ''replicationGrouping'' (PStr '''')),
      (''activatedOn'', pdict_get pdict ''activatedOn'' (PInt t3)),
      (''deactivatedOn'', pdict_get pdict ''deactivatedOn'' (PInt t4)),
      (''active'', pdict_get pdict ''active'' (PBool False)),
      (''pileupSize'', pdict_get pdict ''pileupSize'' (PInt 0)),
      (''ruleList'', pdict_get pdict ''ruleList'' (PList []))]"

datatype exn =
    PyException vmsg
  | DuplicateKeyError
  | PyMongoError string

text \<open>\<open>MSPileupObj.__init__\<close>: returns the object, or raises
  \<open>Exception('MSPileup input is invalid, ...')\<close> with the message of \<open>validate\<close>.\<close>

definition MSPileupObj_init ::
  "(string \<Rightarrow> bool) \<Rightarrow> pydict \<Rightarrow> string list option \<Rightarrow> world \<Rightarrow> (exn + MSPileupObj) \<times> world" where
  "MSPileupObj_init ds pdict valid w =
     (let vs = (case valid of None \<Rightarrow> [] | Some v \<Rightarrow> if v = [] then [] else v);
          (t1, w1) = gmtimeSeconds w;
          (t2, w2) = gmtimeSeconds w1;
          (t3, w3) = gmtimeSeconds w2;
          (t4, w4) = gmtimeSeconds w3;
          self = \<lparr>data = init_data pdict t1 t2 t3 t4, validRSEs = vs\<rparr>;
          (ok, msg) = validate ds self (Some (data self))
      in if \<not> ok then (Inl (PyException msg), w4) else (Inr self, w4))"

definition getPileupData :: "MSPileupObj \<Rightarrow> pydict" where
  "getPileupData self = data self"

section \<open>stripKeys\<close>

text \<open>
  \<open>stripKeys\<close> mutates the dictionaries it is given and, for a list, appends the
  dictionary object itself to the result, so the dictionaries live in a heap and the
  lists hold their addresses. The argument \<open>docs\<close> is a list of dictionaries, one
  dictionary, or any other value.
\<close>

type_synonym addr = nat
type_synonym heap = "addr \<Rightarrow> pydict"

datatype strip_arg = DictList "addr list" | OneDict addr | OtherValue pyval

text \<open>The inner loop of the list branch: \<open>doc.pop(key, None)\<close>, then
  \<open>results.append(doc)\<close>, once for every key.\<close>

fun pop_append_loop :: "string list \<Rightarrow> addr \<Rightarrow> addr list \<times> heap \<Rightarrow> addr list \<times> heap" where
  "pop_append_loop [] doc (results, h) = (results, h)"
| "pop_append_loop (key # keys) doc (results, h) =
     pop_append_loop keys doc (results @ [doc], h(doc := AList.delete key (h doc)))"

fun docs_loop :: "addr list \<Rightarrow> string list \<Rightarrow> addr list \<times> heap \<Rightarrow> addr list \<times> heap" where
  "docs_loop [] skeys (results, h) = (results, h)"
| "docs_loop (doc # rest) skeys (results, h) =
     (if h doc \<noteq> [] then docs_loop rest skeys (pop_append_loop skeys doc (results, h))
      else docs_loop rest skeys (results, h))"

text \<open>The loop of the dictionary branch: \<open>docs.pop(key, None)\<close> for every key.\<close>

fun pop_loop :: "string list \<Rightarrow> addr \<Rightarrow> heap \<Rightarrow> heap" where
  "pop_loop [] doc h = h"
| "pop_loop (key # keys) doc h = pop_loop keys doc (h(doc := AList.delete key (h doc)))"

definition stripKeys :: "strip_arg \<Rightarrow> string list option \<Rightarrow> heap \<Rightarrow> strip_arg \<times> heap" where
  "stripKeys docs skeys h =
     (case skeys of
        None \<Rightarrow> (docs, h)
      | Some keys \<Rightarrow>
          (case docs of
             DictList ds \<Rightarrow>
               (let (results, h') = docs_loop ds keys ([], h) in (DictList results, h'))
           | OneDict d \<Rightarrow>
               (if h d \<noteq> [] then (OneDict d, pop_loop keys d h) else (OneDict d, h))
           | OtherValue v \<Rightarrow> (OtherValue v, h)))"

section \<open>The document store\<close>

text \<open>
  Modelled from the spec: the store collaborator (the pymongo collection \<open>self.dbColl\<close>)
  is not part of the sources at hand. Following the interface of the spec, a collection
  is the list of its documents with a unique index on \<open>pileupName\<close>; a query spec is a
  mapping of field names to the values they must equal; every operation is one round
  trip, which the driver may fail (see \<open>faults\<close>), leaving the collection as it was.
  A projection is the list of the fields to keep, the identifier field being kept with
  them.
\<close>

text \<open>Modelled from the spec: the outcome that the script gives the coming round trip.\<close>

definition pop_fault :: "world \<Rightarrow> string option \<times> world" where
  "pop_fault w = (case faults w of [] \<Rightarrow> (None, w) | f # fs \<Rightarrow> (f, w\<lparr>faults := fs\<rparr>))"

text \<open>Modelled from the spec: a document matches a query spec when it has every field of
  the spec with the value of the spec.\<close>

definition matches :: "pydict \<Rightarrow> pydict \<Rightarrow> bool" where
  "matches spec d = list_all (\<lambda>(k, v). map_of d k = Some v) spec"

text \<open>Modelled from the spec: the optional field projection of a read.\<close>

definition project :: "string list option \<Rightarrow> pydict \<Rightarrow> pydict" where
  "project projection d =
     (case projection of
        None \<Rightarrow> d
      | Some keep \<Rightarrow> filter (\<lambda>(k, v). k = ''_id'' \<or> k \<in> set keep) d)"

text \<open>Modelled from the spec: \<open>$set\<close>, every field of the update replaces or extends
  the stored document.\<close>

definition set_fields :: "pydict \<Rightarrow> pydict \<Rightarrow> pydict" where
  "set_fields upd d = AList.merge d upd"

text \<open>Modelled from the spec: \<open>find\<close> returns the matching documents, projected, in the
  order of the collection.\<close>

definition dbColl_find :: "pydict \<Rightarrow> string list option \<Rightarrow> world \<Rightarrow> (exn + pydict list) \<times> world" where
  "dbColl_find spec projection w =
     (let (f, w1) = pop_fault w
      in case f of
           Some m \<Rightarrow> (Inl (PyMongoError m), w1)
         | None \<Rightarrow> (Inr (map (project projection) (filter (matches spec) (stored w1))), w1))"

text \<open>Modelled from the spec: \<open>insert_one\<close> stamps a fresh \<open>_id\<close> into the caller's
  dictionary before the round trip; the stamped dictionary is returned with the outcome.
  A document whose \<open>pileupName\<close> is already stored is refused by the unique index.\<close>

definition dbColl_insert_one :: "pydict \<Rightarrow> world \<Rightarrow> (exn + unit) \<times> pydict \<times> world" where
  "dbColl_insert_one doc w =
     (let (doc', w0) =
            (if ''_id'' \<in> set (map fst doc) then (doc, w)
             else (doc @ [(''_id'', PObjectId (next_id w))], w\<lparr>next_id := Suc (next_id w)\<rparr>));
          (f, w1) = pop_fault w0
      in case f of
           Some m \<Rightarrow> (Inl (PyMongoError m), doc', w1)
         | None \<Rightarrow>
             if \<exists>d \<in> set (stored w1). map_of d ''pileupName'' = map_of doc' ''pileupName''
             then (Inl DuplicateKeyError, doc', w1)
             else (Inr (), doc', w1\<lparr>stored := stored w1 @ [doc']\<rparr>))"

text \<open>Modelled from the spec: \<open>update_one\<close> changes the first matching document, if
  there is one. The store refuses a change of \<open>_id\<close> and a change that breaks the
  unique index.\<close>

definition dbColl_update_one :: "pydict \<Rightarrow> pydict \<Rightarrow> world \<Rightarrow> (exn + unit) \<times> world" where
  "dbColl_update_one spec upd w =
     (let (f, w1) = pop_fault w
      in case f of
           Some m \<Rightarrow> (Inl (PyMongoError m), w1)
         | None \<Rightarrow>
             (case List.extract (matches spec) (stored w1) of
                None \<Rightarrow> (Inr (), w1)
              | Some (before, d, after) \<Rightarrow>
                  (let d' = set_fields upd d
                   in if map_of d' ''_id'' \<noteq> map_of d ''_id''
                      then (Inl (PyMongoError ''immutable field _id''), w1)
                      else if \<exists>e \<in> set (before @ after).
                                map_of e ''pileupName'' = map_of d' ''pileupName''
                      then (Inl DuplicateKeyError, w1)
                      else (Inr (), w1\<lparr>stored := before @ d' # after\<rparr>))))"

text \<open>Modelled from the spec: \<open>delete_one\<close> removes the first matching document, if there
  is one.\<close>

definition dbColl_delete_one :: "pydict \<Rightarrow> world \<Rightarrow> (exn + unit) \<times> world" where
  "dbColl_delete_one spec w =
     (let (f, w1) = pop_fault w
      in case f of
           Some m \<Rightarrow> (Inl (PyMongoError m), w1)
         | None \<Rightarrow>
             (case List.extract (matches spec) (stored w1) of
                None \<Rightarrow> (Inr (), w1)
              | Some (before, d, after) \<Rightarrow> (Inr (), w1\<lparr>stored := before @ after\<rparr>)))"

section \<open>The error taxonomy\<close>

text \<open>
  Modelled from the spec: the module \<open>MSPileupError\<close> is not part of the sources at
  hand. The spec gives four error kinds, each carrying the offending input and a
  message, the store error optionally wrapping the underlying exception, and a uniform
  conversion \<open>error()\<close> to a result of kind, input and message. As for \<open>validate\<close>, a
  message is its template with the interpolated values.
\<close>

text \<open>Modelled from the spec: the four error kinds.\<close>

datatype error_kind = DuplicateDocument | UniqueConstraintViolated | KeyNotFound | StoreError

datatype rmsg =
    FailedToCreate exn
  | AlreadyExists pydict
  | NoDocumentFor pyval
  | NoDocumentForQuery pydict
  | UniqueConstrain pyval
  | FailedToInsert pydict exn
  | UnableToDelete pydict exn

text \<open>Modelled from the spec: an error object, and the four classes that the registry
  instantiates.\<close>

record MSPileupError =
  err_kind :: error_kind
  err_data :: pydict
  err_message :: rmsg
  err_exc :: "exn option"

type_synonym error_result = "error_kind \<times> pydict \<times> rmsg"

definition MSPileupDuplicateDocumentError :: "pydict \<Rightarrow> rmsg \<Rightarrow> MSPileupError" where
  "MSPileupDuplicateDocumentError d m =
     \<lparr>err_kind = DuplicateDocument, err_data = d, err_message = m, err_exc = None\<rparr>"

definition MSPileupUniqueConstrainError :: "pydict \<Rightarrow> rmsg \<Rightarrow> MSPileupError" where
  "MSPileupUniqueConstrainError d m =
     \<lparr>err_kind = UniqueConstraintViolated, err_data = d, err_message = m, err_exc = None\<rparr>"

definition MSPileupNoKeyFoundError :: "pydict \<Rightarrow> rmsg \<Rightarrow> MSPileupError" where
  "MSPileupNoKeyFoundError d m =
     \<lparr>err_kind = KeyNotFound, err_data = d, err_message = m, err_exc = None\<rparr>"

definition MSPileupDatabaseError :: "pydict \<Rightarrow> rmsg \<Rightarrow> exn option \<Rightarrow> MSPileupError" where
  "MSPileupDatabaseError d m e =
     \<lparr>err_kind = StoreError, err_data = d, err_message = m, err_exc = e\<rparr>"

text \<open>Modelled from the spec: the conversion \<open>error()\<close> of an error object to its result
  form.\<close>

definition error :: "MSPileupError \<Rightarrow> error_result" where
  "error e = (err_kind e, err_data e, err_message e)"

section \<open>MSPileupData: the registry\<close>

text \<open>
  The registry object holds the collection handle, whose state is the \<open>world\<close>, and
  \<open>self.validRSEs\<close>, the parameter \<open>valid\<close> of \<open>createPileup\<close>. A result \<open>Inr errs\<close>
  is the returned list, \<open>Inl e\<close> an exception that leaves the method.
\<close>

text \<open>\<open>doc = stripKeys(doc, ['_id'])\<close> for a document just fetched, a fresh object at
  address 0 of a heap of its own.\<close>

definition strip_id :: "pydict \<Rightarrow> pydict" where
  "strip_id doc =
     (case stripKeys (OneDict 0) (Some [''_id'']) ((\<lambda>a. [])(0 := doc)) of
        (OneDict d, h) \<Rightarrow> h d
      | (other, h) \<Rightarrow> h 0)"

definition getPileup :: "pydict \<Rightarrow> string list option \<Rightarrow> world \<Rightarrow> (exn + pydict list) \<times> world" where
  "getPileup spec projection w =
     (case dbColl_find spec projection w of
        (Inl e, w1) \<Rightarrow> (Inl e, w1)
      | (Inr found, w1) \<Rightarrow> (Inr (map strip_id found), w1))"

definition createPileup ::
  "(string \<Rightarrow> bool) \<Rightarrow> string list \<Rightarrow> pydict \<Rightarrow> world \<Rightarrow> (exn + error_result list) \<times> world" where
  "createPileup ds valid pdict w =
     (case MSPileupObj_init ds pdict (Some valid) w of
        (Inl ex, w1) \<Rightarrow>
          (Inr [error (MSPileupDuplicateDocumentError pdict (FailedToCreate ex))], w1)
      | (Inr obj, w1) \<Rightarrow>
          (case dbColl_insert_one (getPileupData obj) w1 of
             (Inl DuplicateKeyError, doc, w2) \<Rightarrow>
               (Inr [error (MSPileupDuplicateDocumentError doc (AlreadyExists doc))], w2)
           | (Inl ex, doc, w2) \<Rightarrow> (Inl ex, w2)
           | (Inr u, doc, w2) \<Rightarrow> (Inr [], w2)))"

text \<open>\<open>updatePileup\<close> also stamps \<open>lastUpdateTime\<close> into the caller's dictionary;
  the stamped dictionary is the one written and the one carried by a store error.\<close>

definition updatePileup :: "pydict \<Rightarrow> world \<Rightarrow> (exn + error_result list) \<times> world" where
  "updatePileup doc w =
     (let pname = pdict_get doc ''pileupName'' (PStr '''')
      in if \<not> truthy pname
         then (Inr [error (MSPileupNoKeyFoundError doc (NoDocumentFor pname))], w)
         else
           (let spec = [(''pileupName'', pname)]
            in case getPileup spec None w of
                 (Inl ex, w1) \<Rightarrow> (Inl ex, w1)
               | (Inr results, w1) \<Rightarrow>
                   if results = []
                   then (Inr [error (MSPileupNoKeyFoundError spec (NoDocumentForQuery spec))], w1)
                   else if length results \<noteq> 1
                   then (Inr [error (MSPileupUniqueConstrainError spec (UniqueConstrain pname))], w1)
                   else
                     (let (now, w2) = gmtimeSeconds w1;
                          doc' = AList.update ''lastUpdateTime'' (PInt now) doc
                      in case dbColl_update_one spec doc' w2 of
                           (Inl ex, w3) \<Rightarrow>
                             (Inr [error (MSPileupDatabaseError doc' (FailedToInsert doc' ex) (Some ex))], w3)
                         | (Inr u, w3) \<Rightarrow> (Inr [], w3))))"

definition deletePileup :: "pydict \<Rightarrow> world \<Rightarrow> (exn + error_result list) \<times> world" where
  "deletePileup spec w =
     (case dbColl_delete_one spec w of
        (Inl ex, w1) \<Rightarrow>
          (Inr [error (MSPileupDatabaseError spec (UnableToDelete spec ex) None)], w1)
      | (Inr u, w1) \<Rightarrow> (Inr [], w1))"

text \<open>The coming store round trip goes through.\<close>

definition no_fault :: "world \<Rightarrow> bool" where
  "no_fault w = (fst (pop_fault w) = None)"

section \<open>Sample inputs\<close>

text \<open>
  The scenario of the spec: a candidate with six of the fifteen fields, the valid sites
  \<open>Disk1\<close> and \<open>Disk2\<close>, an empty collection, no store failure, and a clock that
  advances by one second at every reading.
\<close>

definition sample_pdict :: pydict where
  "sample_pdict =
     [(''pileupName'', PStr ''/A/B/C''),
      (''pileupType'', PStr ''classic''),
      (''replicationGrouping'', PStr ''DATASET''),
      (''containerFraction'', PFloat (Finite (1/2))),
      (''expectedRSEs'', PList [PStr ''Disk1'']),
      (''currentRSEs'', PList [])]"

definition sample_valid :: "string list" where
  "sample_valid = [''Disk1'', ''Disk2'']"

definition sample_world :: world where
  "sample_world =
     \<lparr>stored = [], next_id = 0, faults = [], time_at = (\<lambda>n. 1700000000 + int n), reads = 0\<rparr>"

text \<open>The document and the object built from \<open>sample_pdict\<close> in \<open>sample_world\<close>.\<close>

definition sample_data :: pydict where
  "sample_data =
     [(''pileupName'', PStr ''/A/B/C''),
      (''pileupType'', PStr ''classic''),
      (''insertTime'', PInt 1700000000),
      (''lastUpdateTime'', PInt 1700000001),
      (''expectedRSEs'', PList [PStr ''Disk1'']),
      (''currentRSEs'', PList []),
      (''fullReplicas'', PInt 0),
      (''campaigns'', PList []),
      (''containerFraction'', PFloat (Finite (1/2))),
      (''replicationGrouping'', PStr ''DATASET''),
      (''activatedOn'', PInt 1700000002),
      (''deactivatedOn'', PInt 1700000003),
      (''active'', PBool False),
      (''pileupSize'', PInt 0),
      (''ruleList'', PList [])]"

definition sample_obj :: MSPileupObj where
  "sample_obj = \<lparr>data = sample_data, validRSEs = sample_valid\<rparr>"

text \<open>The sample document with one key that the schema does not have.\<close>

definition extra_data :: pydict where
  "extra_data = sample_data @ [(''comment'', PStr ''x'')]"

text \<open>A candidate that leaves out every field with a usable default, and the document
  built from it.\<close>

definition minimal_pdict :: pydict where
  "minimal_pdict =
     [(''pileupName'', PStr ''/A/B/C''),
      (''pileupType'', PStr ''premix''),
      (''replicationGrouping'', PStr ''ALL'')]"

definition minimal_data :: pydict where
  "minimal_data =
     [(''pileupName'', PStr ''/A/B/C''),
      (''pileupType'', PStr ''premix''),
      (''insertTime'', PInt 1700000000),
      (''lastUpdateTime'', PInt 1700000001),
      (''expectedRSEs'', PList []),
      (''currentRSEs'', PList []),
      (''fullReplicas'', PInt 0),
      (''campaigns'', PList []),
      (''containerFraction'', PFloat (Finite 1)),
      (''replicationGrouping'', PStr ''ALL''),
      (''activatedOn'', PInt 1700000002),
      (''deactivatedOn'', PInt 1700000003),
      (''active'', PBool False),
      (''pileupSize'', PInt 0),
      (''ruleList'', PList [])]"

text \<open>A heap with two dictionaries, at addresses 0 and 1.\<close>

definition alias_heap :: heap where
  "alias_heap =
     (\<lambda>a. [])(0 := [(''_id'', PObjectId 7)],
              1 := [(''_id'', PObjectId 8), (''pileupType'', PStr ''classic'')])"

text \<open>The collection after \<open>sample_pdict\<close> has been created in \<open>sample_world\<close>, and a
  collection whose index is corrupted: it holds the document twice.\<close>

definition stored_doc :: pydict where
  "stored_doc = sample_data @ [(''_id'', PObjectId 0)]"

definition stored_world :: world where
  "stored_world = sample_world\<lparr>stored := [stored_doc], next_id := 1, reads := 4\<rparr>"

definition twin_world :: world where
  "twin_world =
     sample_world\<lparr>stored := [stored_doc, sample_data @ [(''_id'', PObjectId 1)]],
                  next_id := 2, reads := 8\<rparr>"

text \<open>
  A candidate that brings its own \<open>lastUpdateTime\<close>, later than the clock; the stored
  document and the collection after its creation in \<open>sample_world\<close>; an update that
  carries an \<open>insertTime\<close>, and the stored document after that update.
\<close>

definition future_pdict :: pydict where
  "future_pdict = sample_pdict @ [(''lastUpdateTime'', PInt 1800000000)]"

definition future_doc :: pydict where
  "future_doc = AList.update ''lastUpdateTime'' (PInt 1800000000) stored_doc"

definition future_world :: world where
  "future_world = sample_world\<lparr>stored := [future_doc], next_id := 1, reads := 4\<rparr>"

definition changes :: pydict where
  "changes = [(''pileupName'', PStr ''/A/B/C''), (''insertTime'', PInt 5)]"

definition changed_doc :: pydict where
  "changed_doc =
     [(''pileupName'', PStr ''/A/B/C''),
      (''pileupType'', PStr ''classic''),
      (''insertTime'', PInt 5),
      (''lastUpdateTime'', PInt 1700000004),
      (''expectedRSEs'', PList [PStr ''Disk1'']),
      (''currentRSEs'', PList []),
      (''fullReplicas'', PInt 0),
      (''campaigns'', PList []),
      (''containerFraction'', PFloat (Finite (1/2))),
      (''replicationGrouping'', PStr ''DATASET''),
      (''activatedOn'', PInt 1700000002),
      (''deactivatedOn'', PInt 1700000003),
      (''active'', PBool False),
      (''pileupSize'', PInt 0),
      (''ruleList'', PList []),
      (''_id'', PObjectId 0)]"

text \<open>Three update documents: one that activates the stored record, one that names a
  record that is not stored, and one without a name.\<close>

definition activate :: pydict where
  "activate = [(''pileupName'', PStr ''/A/B/C''), (''active'', PBool True)]"

definition missing :: pydict where
  "missing = [(''pileupName'', PStr ''/X/Y/Z'')]"

definition unnamed :: pydict where
  "unnamed = [(''active'', PBool True)]"

text \<open>A store whose coming round trip fails, and one whose second round trip fails.\<close>

definition timed_out :: "world \<Rightarrow> world" where
  "timed_out w = w\<lparr>faults := [Some ''timed out'']\<rparr>"

definition write_timed_out :: "world \<Rightarrow> world" where
  "write_timed_out w = w\<lparr>faults := [None, Some ''timed out'']\<rparr>"

section \<open>Validation: supporting lemmas\<close>

lemma schema_keys:
  "map fst schema =
     [''pileupName'', ''pileupType'', ''insertTime'', ''lastUpdateTime'', ''expectedRSEs'',
      ''currentRSEs'', ''fullReplicas'', ''campaigns'', ''containerFraction'',
      ''replicationGrouping'', ''activatedOn'', ''deactivatedOn'', ''active'', ''pileupSize'',
      ''ruleList'']"
  by (simp add: schema_def)

lemma init_data_keys: "map fst (init_data pdict t1 t2 t3 t4) = map fst schema"
  by (simp add: init_data_def schema_def)

lemma validate_items_fst:
  "fst (validate_items ds self items) = (\<forall>(k, v) \<in> set items. check_item ds self k v = None)"
  by (induction items) (auto split: option.splits)

lemma validate_nonempty:
  "d \<noteq> [] \<Longrightarrow> fst (validate ds self (Some d)) =
     (set (map fst d) = set (map fst schema) \<and> (\<forall>(k, v) \<in> set d. check_item ds self k v = None))"
  by (simp add: validate_def Let_def validate_items_fst)

lemma rse_in_iff: "rse_in r valid = (r \<in> PStr ` set valid)"
  by (cases r) auto

lemma rse_loop_iff: "rse_loop valid rs = (\<forall>r \<in> set rs. rse_in r valid)"
  by (induction rs) auto

lemma validateRSEs_iff: "validateRSEs self rs = (\<forall>r \<in> set rs. r \<in> PStr ` set (validRSEs self))"
  by (auto simp: validateRSEs_def rse_loop_iff rse_in_iff)

lemma set_update_subset: "set (AList.update k v al) \<subseteq> insert (k, v) (set al)"
  by (induction al) auto

lemma keys_update_present:
  "k \<in> fst ` set al \<Longrightarrow> fst ` set (AList.update k v al) = fst ` set al"
  by (auto simp: dom_update)

lemma check_item_rses:
  "key = ''expectedRSEs'' \<or> key = ''currentRSEs'' \<Longrightarrow>
   check_item ds self key (PList rs) =
     (if validateRSEs self rs then None else Some (NotInValidRSEs key (PList rs) (validRSEs self)))"
  by (elim disjE) (simp_all add: check_item_def schema_def isinstance_def)

lemma check_item_fraction:
  "check_item ds self ''containerFraction'' (PFloat f) =
     (if float_gt f 1 \<or> float_lt f 0 then Some (FractionOutOfRange (PFloat f)) else None)"
  by (simp add: check_item_def schema_def isinstance_def)

lemma check_item_fraction_int:
  "check_item ds self ''containerFraction'' (PInt i) = Some (WrongType ''containerFraction'' TFloat TInt)"
  by (simp add: check_item_def schema_def isinstance_def)

lemma validate_update_ok:
  assumes "d \<noteq> []" and "fst (validate ds self (Some d))"
    and "key \<in> set (map fst schema)" and "check_item ds self key v = None"
  shows "fst (validate ds self (Some (AList.update key v d)))"
proof -
  from assms(1,2) have keys: "set (map fst d) = set (map fst schema)"
    and items: "\<forall>(k, x) \<in> set d. check_item ds self k x = None"
    by (simp_all add: validate_nonempty)
  from keys assms(3) have "set (map fst (AList.update key v d)) = set (map fst schema)"
    using keys_update_present [of key d v] by simp
  moreover have "\<forall>(k, x) \<in> set (AList.update key v d). check_item ds self k x = None"
    using items assms(4) set_update_subset [of key v d] by auto
  ultimately show ?thesis
    by (simp add: validate_nonempty)
qed

lemma validate_item_fails:
  assumes "map_of d key = Some v" and "check_item ds self key v \<noteq> None"
  shows "\<not> fst (validate ds self (Some d))"
proof -
  from assms(1) have mem: "(key, v) \<in> set d" by (rule map_of_SomeD)
  then have "d \<noteq> []" by auto
  moreover from mem assms(2) have "\<not> (\<forall>(k, x) \<in> set d. check_item ds self k x = None)"
    by fastforce
  ultimately show ?thesis
    by (simp add: validate_nonempty)
qed

lemma MSPileupObj_init_eq:
  "MSPileupObj_init ds pdict valid w =
     (let self = \<lparr>data = init_data pdict (time_at w (reads w)) (time_at w (reads w + 1))
                           (time_at w (reads w + 2)) (time_at w (reads w + 3)),
                  validRSEs = (case valid of None \<Rightarrow> [] | Some v \<Rightarrow> v)\<rparr>
      in (if fst (validate ds self (Some (data self))) then Inr self
          else Inl (PyException (snd (validate ds self (Some (data self))))),
          w\<lparr>reads := reads w + 4\<rparr>))"
  by (cases valid)
    (simp_all add: MSPileupObj_init_def gmtimeSeconds_def Let_def split_def eval_nat_numeral)

lemma init_data_extra_key:
  assumes "k \<notin> set (map fst schema)"
  shows "init_data (AList.update k v pdict) t1 t2 t3 t4 = init_data pdict t1 t2 t3 t4"
proof -
  have "\<And>k'. k' \<in> set (map fst schema) \<Longrightarrow>
      pdict_get (AList.update k v pdict) k' = pdict_get pdict k'"
    using assms by (auto simp: pdict_get_def update_conv' fun_eq_iff)
  then show ?thesis
    by (simp add: init_data_def schema_keys)
qed

lemma init_data_map_ran:
  "init_data pdict t1 t2 t3 t4 =
     AList.map_ran (\<lambda>k dflt. pdict_get pdict k dflt) (init_data [] t1 t2 t3 t4)"
  by (simp add: init_data_def map_ran_def pdict_get_def)

lemma map_of_init_data_omitted:
  assumes "map_of pdict k = None"
  shows "map_of (init_data pdict t1 t2 t3 t4) k = map_of (init_data [] t1 t2 t3 t4) k"
proof -
  have "map_of (init_data pdict t1 t2 t3 t4) k
      = map_option (pdict_get pdict k) (map_of (init_data [] t1 t2 t3 t4) k)"
    by (subst init_data_map_ran) (simp add: map_ran_conv)
  also have "pdict_get pdict k = (\<lambda>dflt. dflt)"
    using assms by (simp add: pdict_get_def fun_eq_iff)
  finally show ?thesis by (simp add: option.map_ident)
qed

lemma map_of_init_data_given:
  assumes "map_of pdict k = Some v" and "k \<in> set (map fst schema)"
  shows "map_of (init_data pdict t1 t2 t3 t4) k = Some v"
proof -
  have "k \<in> fst ` set (init_data [] t1 t2 t3 t4)"
    using assms(2) init_data_keys [of "[]" t1 t2 t3 t4] by (metis set_map)
  then obtain dflt where "map_of (init_data [] t1 t2 t3 t4) k = Some dflt"
    by (meson map_of_eq_None_iff not_Some_eq)
  moreover have "map_of (init_data pdict t1 t2 t3 t4) k
      = map_option (pdict_get pdict k) (map_of (init_data [] t1 t2 t3 t4) k)"
    by (subst init_data_map_ran) (simp add: map_ran_conv)
  ultimately show ?thesis
    using assms(1) by (simp add: pdict_get_def)
qed

lemma init_data_empty:
  "init_data [] t1 t2 t3 t4 =
     [(''pileupName'', PStr ''''),
      (''pileupType'', PStr ''''),
      (''insertTime'', PInt t1),
      (''lastUpdateTime'', PInt t2),
      (''expectedRSEs'', PList []),
      (''currentRSEs'', PList []),
      (''fullReplicas'', PInt 0),
      (''campaigns'', PList []),
      (''containerFraction'', PFloat (Finite 1)),
      (''replicationGrouping'', PStr ''''),
      (''activatedOn'', PInt t3),
      (''deactivatedOn'', PInt t4),
      (''active'', PBool False),
      (''pileupSize'', PInt 0),
      (''ruleList'', PList [])]"
  by (simp add: init_data_def pdict_get_def)

lemma sample_init:
  "fst (MSPileupObj_init dataset_pattern sample_pdict (Some sample_valid) sample_world) = Inr sample_obj"
  by code_simp

section \<open>Defaults of the constructor\<close>

text \<open>
  C3, as stated, fails: the default of \<open>containerFraction\<close> is \<open>1.0\<close>, which is neither
  the empty string, the empty sequence, zero, \<open>False\<close> nor a clock reading. The candidate
  \<open>minimal_pdict\<close> omits \<open>containerFraction\<close>; the object built from it holds \<open>1.0\<close>.
\<close>

theorem default_not_listed_counterexample:
  "map_of minimal_pdict ''containerFraction'' = None
   \<and> fst (MSPileupObj_init dataset_pattern minimal_pdict (Some sample_valid) sample_world)
       = Inr \<lparr>data = minimal_data, validRSEs = sample_valid\<rparr>
   \<and> map_of minimal_data ''containerFraction'' = Some (PFloat (Finite 1))
   \<and> PFloat (Finite 1) \<notin> set [PStr '''', PList [], PInt 0, PFloat (Finite 0), PBool False,
        PInt 1700000000, PInt 1700000001, PInt 1700000002, PInt 1700000003]"
  by code_simp

text \<open>
  C3, amended: for every candidate mapping, each omitted field receives the default of
  the constructor before validation: the empty string for \<open>pileupName\<close>, \<open>pileupType\<close>
  and \<open>replicationGrouping\<close>, the empty list for \<open>expectedRSEs\<close>, \<open>currentRSEs\<close>,
  \<open>campaigns\<close> and \<open>ruleList\<close>, zero for \<open>fullReplicas\<close> and \<open>pileupSize\<close>, \<open>False\<close>
  for \<open>active\<close>, \<open>1.0\<close> for \<open>containerFraction\<close>, and a reading of the clock for
  \<open>insertTime\<close>, \<open>lastUpdateTime\<close>, \<open>activatedOn\<close> and \<open>deactivatedOn\<close>. A schema
  field that is given keeps its value. Validation is performed on the fully defaulted
  15-field mapping, and its outcome decides whether the object is built.
\<close>

theorem init_fills_defaults:
  "(map_of pdict k = None
      \<longrightarrow> map_of (init_data pdict t1 t2 t3 t4) k = map_of (init_data [] t1 t2 t3 t4) k)
   \<and> (map_of pdict k = Some v \<and> k \<in> set (map fst schema)
      \<longrightarrow> map_of (init_data pdict t1 t2 t3 t4) k = Some v)
   \<and> init_data [] t1 t2 t3 t4 =
       [(''pileupName'', PStr ''''),
        (''pileupType'', PStr ''''),
        (''insertTime'', PInt t1),
        (''lastUpdateTime'', PInt t2),
        (''expectedRSEs'', PList []),
        (''currentRSEs'', PList []),
        (''fullReplicas'', PInt 0),
        (''campaigns'', PList []),
        (''containerFraction'', PFloat (Finite 1)),
        (''replicationGrouping'', PStr ''''),
        (''activatedOn'', PInt t3),
        (''deactivatedOn'', PInt t4),
        (''active'', PBool False),
        (''pileupSize'', PInt 0),
        (''ruleList'', PList [])]
   \<and> length (init_data pdict t1 t2 t3 t4) = 15
   \<and> (let self = \<lparr>data = init_data pdict (time_at w (reads w)) (time_at w (reads w + 1))
                             (time_at w (reads w + 2)) (time_at w (reads w + 3)),
                    validRSEs = (case valid of None \<Rightarrow> [] | Some vs \<Rightarrow> vs)\<rparr>
       in fst (MSPileupObj_init ds pdict valid w) =
            (if fst (validate ds self (Some (data self))) then Inr self
             else Inl (PyException (snd (validate ds self (Some (data self)))))))"
proof (intro conjI impI)
  show "length (init_data pdict t1 t2 t3 t4) = 15"
    by (simp add: init_data_def)
qed (simp_all add: map_of_init_data_omitted map_of_init_data_given init_data_empty
      MSPileupObj_init_eq Let_def)

theorem init_fills_defaults_witness:
  "map_of (init_data minimal_pdict 1700000000 1700000001 1700000002 1700000003)
       ''containerFraction'' = Some (PFloat (Finite 1))
   \<and> map_of (init_data minimal_pdict 1700000000 1700000001 1700000002 1700000003)
       ''pileupType'' = Some (PStr ''premix'')"
proof -
  have omitted: "map_of minimal_pdict ''containerFraction'' = None"
    by code_simp
  have given: "map_of minimal_pdict ''pileupType'' = Some (PStr ''premix'')
      \<and> ''pileupType'' \<in> set (map fst schema)"
    by code_simp
  have "map_of (init_data minimal_pdict 1700000000 1700000001 1700000002 1700000003)
        ''containerFraction''
      = map_of (init_data [] 1700000000 1700000001 1700000002 1700000003) ''containerFraction''"
    by (rule init_fills_defaults [THEN conjunct1, THEN mp, OF omitted])
  then have 1: "map_of (init_data minimal_pdict 1700000000 1700000001 1700000002 1700000003)
        ''containerFraction'' = Some (PFloat (Finite 1))"
    by (simp add: init_data_empty)
  have 2: "map_of (init_data minimal_pdict 1700000000 1700000001 1700000002 1700000003)
        ''pileupType'' = Some (PStr ''premix'')"
    by (rule init_fills_defaults [THEN conjunct2, THEN conjunct1, THEN mp, OF given])
  from 1 2 show ?thesis by (rule conjI)
qed

section \<open>Key set of a validated mapping\<close>

text \<open>
  C5, as stated, fails for the empty mapping: its key set differs from the schema's,
  yet \<open>validate\<close> takes an empty argument as no argument, validates the object's own
  data instead and succeeds.
\<close>

theorem validate_empty_mapping_counterexample:
  "fst (MSPileupObj_init dataset_pattern sample_pdict (Some sample_valid) sample_world) = Inr sample_obj
   \<and> set (map fst ([] :: pydict)) \<noteq> set (map fst schema)
   \<and> validate dataset_pattern sample_obj (Some []) = (True, NoMessage)"
  by code_simp

text \<open>
  C5, amended: for every non-empty candidate mapping whose key set differs from the
  15-field schema key set (a missing key or an extra key), \<open>validate\<close> fails and returns
  \<open>(False, message)\<close>; an empty mapping is treated as no argument, and the object's own
  data is validated in its place.
\<close>

theorem validate_key_set:
  "(d \<noteq> [] \<and> set (map fst d) \<noteq> set (map fst schema)
      \<longrightarrow> validate ds self (Some d) = (False, KeysNotEqual (set (map fst d)) (set (map fst schema))))
   \<and> validate ds self (Some []) = validate ds self None
   \<and> length schema = 15"
  by (simp add: validate_def Let_def) (simp add: schema_def)

theorem validate_key_set_witness:
  "validate dataset_pattern sample_obj (Some [(''pileupName'', PStr ''/A/B/C'')])
     = (False, KeysNotEqual (set (map fst [(''pileupName'', PStr ''/A/B/C'')])) (set (map fst schema)))
   \<and> validate dataset_pattern sample_obj (Some extra_data)
     = (False, KeysNotEqual (set (map fst extra_data)) (set (map fst schema)))"
proof -
  have missing: "[(''pileupName'', PStr ''/A/B/C'')] \<noteq> []
      \<and> set (map fst [(''pileupName'', PStr ''/A/B/C'')]) \<noteq> set (map fst schema)"
    by code_simp
  have extra: "extra_data \<noteq> [] \<and> set (map fst extra_data) \<noteq> set (map fst schema)"
    by code_simp
  show ?thesis
    using validate_key_set [THEN conjunct1, THEN mp, OF missing]
      validate_key_set [THEN conjunct1, THEN mp, OF extra]
    by (rule conjI)
qed

section \<open>Valid sites\<close>

text \<open>
  C6: for every valid-site set and every list given as \<open>expectedRSEs\<close> or
  \<open>currentRSEs\<close>: when the list has an element that is not a valid site, validation
  fails; when every element is a valid site, or the list equals the list of valid sites,
  and the mapping is otherwise valid, validation succeeds.
\<close>

theorem validate_rses:
  assumes "key = ''expectedRSEs'' \<or> key = ''currentRSEs''"
  shows "(map_of d key = Some (PList rs) \<and> (\<exists>r \<in> set rs. r \<notin> PStr ` set (validRSEs self))
            \<longrightarrow> \<not> fst (validate ds self (Some d)))
       \<and> (d \<noteq> [] \<and> fst (validate ds self (Some d))
            \<and> ((\<forall>r \<in> set rs. r \<in> PStr ` set (validRSEs self)) \<or> rs = map PStr (validRSEs self))
            \<longrightarrow> fst (validate ds self (Some (AList.update key (PList rs) d))))"
proof (intro conjI impI)
  assume a: "map_of d key = Some (PList rs) \<and> (\<exists>r \<in> set rs. r \<notin> PStr ` set (validRSEs self))"
  then have "check_item ds self key (PList rs) \<noteq> None"
    using assms by (auto simp: check_item_rses validateRSEs_iff)
  with a show "\<not> fst (validate ds self (Some d))"
    using validate_item_fails by blast
next
  assume a: "d \<noteq> [] \<and> fst (validate ds self (Some d))
      \<and> ((\<forall>r \<in> set rs. r \<in> PStr ` set (validRSEs self)) \<or> rs = map PStr (validRSEs self))"
  then have "validateRSEs self rs"
    by (auto simp: validateRSEs_iff)
  then have "check_item ds self key (PList rs) = None"
    using assms by (simp add: check_item_rses)
  moreover have "key \<in> set (map fst schema)"
    using assms by (auto simp: schema_keys)
  ultimately show "fst (validate ds self (Some (AList.update key (PList rs) d)))"
    using a validate_update_ok by blast
qed

theorem validate_rses_witness:
  "\<not> fst (validate dataset_pattern sample_obj
        (Some (AList.update ''expectedRSEs'' (PList [PStr ''Disk3'']) sample_data)))
   \<and> fst (validate dataset_pattern sample_obj
        (Some (AList.update ''expectedRSEs'' (PList [PStr ''Disk2'', PStr ''Disk1'']) sample_data)))"
proof -
  have key: "''expectedRSEs'' = ''expectedRSEs'' \<or> ''expectedRSEs'' = ''currentRSEs''" by simp
  have bad: "map_of (AList.update ''expectedRSEs'' (PList [PStr ''Disk3'']) sample_data) ''expectedRSEs''
        = Some (PList [PStr ''Disk3''])
      \<and> (\<exists>r \<in> set [PStr ''Disk3'']. r \<notin> PStr ` set (validRSEs sample_obj))"
    by code_simp
  have good: "sample_data \<noteq> [] \<and> fst (validate dataset_pattern sample_obj (Some sample_data))
      \<and> ((\<forall>r \<in> set [PStr ''Disk2'', PStr ''Disk1'']. r \<in> PStr ` set (validRSEs sample_obj))
          \<or> [PStr ''Disk2'', PStr ''Disk1''] = map PStr (validRSEs sample_obj))"
    by code_simp
  have 1: "\<not> fst (validate dataset_pattern sample_obj
        (Some (AList.update ''expectedRSEs'' (PList [PStr ''Disk3'']) sample_data)))"
    by (rule validate_rses [OF key, THEN conjunct1, THEN mp, OF bad])
  have 2: "fst (validate dataset_pattern sample_obj
        (Some (AList.update ''expectedRSEs'' (PList [PStr ''Disk2'', PStr ''Disk1'']) sample_data)))"
    by (rule validate_rses [OF key, THEN conjunct2, THEN mp, OF good])
  from 1 2 show ?thesis by (rule conjI)
qed

section \<open>Container fraction\<close>

text \<open>
  C7: for every \<open>containerFraction\<close> strictly greater than 1 or strictly less than 0,
  validation fails; for 0.0, 1.0 and every value between them, validation succeeds when
  the mapping is otherwise valid.
\<close>

theorem validate_containerFraction:
  "(map_of d ''containerFraction'' = Some v
      \<and> ((\<exists>f. v = PFloat f \<and> (float_gt f 1 \<or> float_lt f 0)) \<or> (\<exists>i. v = PInt i \<and> (1 < i \<or> i < 0)))
      \<longrightarrow> \<not> fst (validate ds self (Some d)))
   \<and> (d \<noteq> [] \<and> fst (validate ds self (Some d)) \<and> 0 \<le> r \<and> r \<le> 1
      \<longrightarrow> fst (validate ds self (Some (AList.update ''containerFraction'' (PFloat (Finite r)) d))))"
proof (intro conjI impI)
  assume a: "map_of d ''containerFraction'' = Some v
      \<and> ((\<exists>f. v = PFloat f \<and> (float_gt f 1 \<or> float_lt f 0)) \<or> (\<exists>i. v = PInt i \<and> (1 < i \<or> i < 0)))"
  then have "check_item ds self ''containerFraction'' v \<noteq> None"
    by (auto simp: check_item_fraction check_item_fraction_int)
  with a show "\<not> fst (validate ds self (Some d))"
    using validate_item_fails by blast
next
  assume a: "d \<noteq> [] \<and> fst (validate ds self (Some d)) \<and> 0 \<le> r \<and> r \<le> 1"
  then have "check_item ds self ''containerFraction'' (PFloat (Finite r)) = None"
    by (simp add: check_item_fraction)
  moreover have "''containerFraction'' \<in> set (map fst schema)"
    by (simp add: schema_keys)
  ultimately show "fst (validate ds self (Some (AList.update ''containerFraction'' (PFloat (Finite r)) d)))"
    using a validate_update_ok by blast
qed

theorem validate_containerFraction_witness:
  "\<not> fst (validate dataset_pattern sample_obj
        (Some (AList.update ''containerFraction'' (PFloat (Finite (3/2))) sample_data)))
   \<and> fst (validate dataset_pattern sample_obj
        (Some (AList.update ''containerFraction'' (PFloat (Finite 0)) sample_data)))
   \<and> fst (validate dataset_pattern sample_obj
        (Some (AList.update ''containerFraction'' (PFloat (Finite 1)) sample_data)))"
proof -
  have bad: "map_of (AList.update ''containerFraction'' (PFloat (Finite (3/2))) sample_data)
        ''containerFraction'' = Some (PFloat (Finite (3/2)))
      \<and> ((\<exists>f. PFloat (Finite (3/2)) = PFloat f \<and> (float_gt f 1 \<or> float_lt f 0))
         \<or> (\<exists>i. PFloat (Finite (3/2)) = PInt i \<and> (1 < i \<or> i < 0)))"
    by (simp add: update_conv')
  have lo: "sample_data \<noteq> [] \<and> fst (validate dataset_pattern sample_obj (Some sample_data))
      \<and> (0::rat) \<le> 0 \<and> (0::rat) \<le> 1"
    by code_simp
  have hi: "sample_data \<noteq> [] \<and> fst (validate dataset_pattern sample_obj (Some sample_data))
      \<and> (0::rat) \<le> 1 \<and> (1::rat) \<le> 1"
    by code_simp
  have 1: "\<not> fst (validate dataset_pattern sample_obj
        (Some (AList.update ''containerFraction'' (PFloat (Finite (3/2))) sample_data)))"
    by (rule validate_containerFraction [THEN conjunct1, THEN mp, OF bad])
  have 2: "fst (validate dataset_pattern sample_obj
        (Some (AList.update ''containerFraction'' (PFloat (Finite 0)) sample_data)))"
    by (rule validate_containerFraction [THEN conjunct2, THEN mp, OF lo])
  have 3: "fst (validate dataset_pattern sample_obj
        (Some (AList.update ''containerFraction'' (PFloat (Finite 1)) sample_data)))"
    by (rule validate_containerFraction [THEN conjunct2, THEN mp, OF hi])
  from 1 2 3 show ?thesis by blast
qed

section \<open>Extra keys of a candidate\<close>

text \<open>
  C9: for every candidate mapping, the constructor builds the document by projecting
  the candidate onto exactly the 15 schema fields. A key outside the schema is dropped
  and never makes the construction fail: the construction succeeds if and only if the
  defaulted 15-field projection passes validation, although the direct validation of a
  mapping with an extra key fails.
\<close>

theorem init_projects_schema_fields:
  "(let self = \<lparr>data = init_data pdict (time_at w (reads w)) (time_at w (reads w + 1))
                           (time_at w (reads w + 2)) (time_at w (reads w + 3)),
                 validRSEs = (case valid of None \<Rightarrow> [] | Some vs \<Rightarrow> vs)\<rparr>
    in map fst (data self) = map fst schema
       \<and> fst (MSPileupObj_init ds pdict valid w) =
           (if fst (validate ds self (Some (data self))) then Inr self
            else Inl (PyException (snd (validate ds self (Some (data self)))))))
   \<and> (k \<notin> set (map fst schema)
        \<longrightarrow> MSPileupObj_init ds (AList.update k v pdict) valid w = MSPileupObj_init ds pdict valid w)
   \<and> (k \<in> set (map fst d) \<and> k \<notin> set (map fst schema) \<longrightarrow> \<not> fst (validate ds obj (Some d)))"
proof (intro conjI)
  show "let self = \<lparr>data = init_data pdict (time_at w (reads w)) (time_at w (reads w + 1))
                           (time_at w (reads w + 2)) (time_at w (reads w + 3)),
                 validRSEs = (case valid of None \<Rightarrow> [] | Some vs \<Rightarrow> vs)\<rparr>
    in map fst (data self) = map fst schema
       \<and> fst (MSPileupObj_init ds pdict valid w) =
           (if fst (validate ds self (Some (data self))) then Inr self
            else Inl (PyException (snd (validate ds self (Some (data self))))))"
    by (simp add: MSPileupObj_init_eq Let_def init_data_keys)
  show "k \<notin> set (map fst schema)
        \<longrightarrow> MSPileupObj_init ds (AList.update k v pdict) valid w = MSPileupObj_init ds pdict valid w"
    by (simp add: MSPileupObj_init_eq init_data_extra_key)
  show "k \<in> set (map fst d) \<and> k \<notin> set (map fst schema) \<longrightarrow> \<not> fst (validate ds obj (Some d))"
  proof
    assume a: "k \<in> set (map fst d) \<and> k \<notin> set (map fst schema)"
    then have "d \<noteq> []" and "set (map fst d) \<noteq> set (map fst schema)" by auto
    then show "\<not> fst (validate ds obj (Some d))"
      by (simp add: validate_nonempty)
  qed
qed

theorem init_projects_schema_fields_witness:
  "fst (MSPileupObj_init dataset_pattern (AList.update ''comment'' (PStr ''x'') sample_pdict)
          (Some sample_valid) sample_world) = Inr sample_obj
   \<and> \<not> fst (validate dataset_pattern sample_obj (Some extra_data))"
proof -
  have outside: "''comment'' \<notin> set (map fst schema)"
    by code_simp
  have extra: "''comment'' \<in> set (map fst extra_data) \<and> ''comment'' \<notin> set (map fst schema)"
    by code_simp
  have "MSPileupObj_init dataset_pattern (AList.update ''comment'' (PStr ''x'') sample_pdict)
          (Some sample_valid) sample_world
      = MSPileupObj_init dataset_pattern sample_pdict (Some sample_valid) sample_world"
    by (rule init_projects_schema_fields [THEN conjunct2, THEN conjunct1, THEN mp, OF outside])
  then have 1: "fst (MSPileupObj_init dataset_pattern (AList.update ''comment'' (PStr ''x'') sample_pdict)
          (Some sample_valid) sample_world) = Inr sample_obj"
    by (simp add: sample_init)
  have 2: "\<not> fst (validate dataset_pattern sample_obj (Some extra_data))"
    by (rule init_projects_schema_fields [THEN conjunct2, THEN conjunct2, THEN mp, OF extra])
  from 1 2 show ?thesis by (rule conjI)
qed

section \<open>stripKeys\<close>

lemma pop_append_loop_eq:
  "pop_append_loop keys a (rs, h) =
     (rs @ replicate (length keys) a, h(a := fold AList.delete keys (h a)))"
  by (induction keys arbitrary: rs h) (simp_all add: replicate_app_Cons_same)

lemma pop_loop_eq: "pop_loop keys a h = h(a := fold AList.delete keys (h a))"
  by (induction keys arbitrary: h) simp_all

lemma docs_loop_distinct:
  "distinct ds \<Longrightarrow> \<forall>a \<in> set ds. h a \<noteq> [] \<Longrightarrow>
   docs_loop ds keys (rs, h) =
     (rs @ concat (map (replicate (length keys)) ds),
      (\<lambda>a. if a \<in> set ds then fold AList.delete keys (h a) else h a))"
proof (induction ds arbitrary: rs h)
  case Nil
  then show ?case by simp
next
  case (Cons d ds)
  let ?h = "h(d := fold AList.delete keys (h d))"
  from Cons.prems have fresh: "d \<notin> set ds" and first: "h d \<noteq> []" by auto
  from Cons.prems fresh have "distinct ds" and "\<forall>a \<in> set ds. ?h a \<noteq> []" by auto
  then have "docs_loop ds keys (rs @ replicate (length keys) d, ?h) =
      ((rs @ replicate (length keys) d) @ concat (map (replicate (length keys)) ds),
       (\<lambda>a. if a \<in> set ds then fold AList.delete keys (?h a) else ?h a))"
    by (rule Cons.IH)
  moreover have "(\<lambda>a. if a \<in> set ds then fold AList.delete keys (?h a) else ?h a) =
      (\<lambda>a. if a \<in> set (d # ds) then fold AList.delete keys (h a) else h a)"
    using fresh by (auto simp: fun_eq_iff)
  ultimately show ?case
    using first by (simp add: pop_append_loop_eq)
qed

lemma count_list_distinct: "distinct ds \<Longrightarrow> b \<in> set ds \<Longrightarrow> count_list ds b = 1"
  by (induction ds) auto

lemma count_list_concat_replicate:
  "count_list (concat (map (replicate n) ds)) a = n * count_list ds a"
  by (induction ds) (simp_all add: count_list_eq_length_filter)

text \<open>
  C10, as stated, fails when a dictionary object occurs more than once in the list. In
  \<open>alias_heap\<close> the dictionary at address 0 is empty after its first visit, so its
  second occurrence is skipped; the dictionary at address 1 is not, so it is appended
  at both occurrences: with one strip key it appears twice in the result, and the
  result has three entries for four entries of the input.
\<close>

theorem stripKeys_aliased_counterexample:
  "alias_heap 0 \<noteq> [] \<and> alias_heap 1 \<noteq> []
   \<and> fst (stripKeys (DictList [0, 0, 1, 1]) (Some [''_id'']) alias_heap) = DictList [0, 1, 1]
   \<and> count_list [0, 1, 1] (1::nat) \<noteq> length [''_id'']
   \<and> length [0, 1, 1 :: nat] \<noteq> length [0, 0, 1, 1 :: nat] * length [''_id'']"
  by (simp add: alias_heap_def stripKeys_def)

text \<open>
  C10, amended: for every list of pairwise distinct non-empty dictionary objects and
  every list of strip keys, \<open>stripKeys\<close> returns a list in which each input dictionary
  appears exactly \<open>len(skeys)\<close> times, next to each other and in the order of the
  input (it is appended once per strip key, rather than once), every strip key being
  removed from each of them; with \<open>skeys = None\<close> the input is returned unchanged.
\<close>

theorem stripKeys_repeats:
  "(distinct ds \<and> (\<forall>a \<in> set ds. h a \<noteq> []) \<longrightarrow>
      stripKeys (DictList ds) (Some keys) h =
        (DictList (concat (map (replicate (length keys)) ds)),
         (\<lambda>a. if a \<in> set ds then fold AList.delete keys (h a) else h a))
      \<and> (\<forall>a \<in> set ds. count_list (concat (map (replicate (length keys)) ds)) a = length keys))
   \<and> stripKeys docs None h = (docs, h)"
proof (intro conjI impI ballI)
  assume a: "distinct ds \<and> (\<forall>a \<in> set ds. h a \<noteq> [])"
  then show "stripKeys (DictList ds) (Some keys) h =
        (DictList (concat (map (replicate (length keys)) ds)),
         (\<lambda>a. if a \<in> set ds then fold AList.delete keys (h a) else h a))"
    by (simp add: stripKeys_def docs_loop_distinct)
  fix b assume "b \<in> set ds"
  with a have "count_list ds b = 1"
    by (simp add: count_list_distinct)
  then show "count_list (concat (map (replicate (length keys)) ds)) b = length keys"
    by (simp add: count_list_concat_replicate)
next
  show "stripKeys docs None h = (docs, h)"
    by (simp add: stripKeys_def)
qed

theorem stripKeys_repeats_witness:
  "fst (stripKeys (DictList [0, 1]) (Some [''_id'', ''pileupType'']) alias_heap)
     = DictList [0, 0, 1, 1]
   \<and> snd (stripKeys (DictList [0, 1]) (Some [''_id'', ''pileupType'']) alias_heap) 1 = []"
proof -
  have separate: "distinct [0, 1 :: nat] \<and> (\<forall>a \<in> set [0, 1]. alias_heap a \<noteq> [])"
    by (simp add: alias_heap_def)
  have eq: "stripKeys (DictList [0, 1]) (Some [''_id'', ''pileupType'']) alias_heap =
      (DictList (concat (map (replicate (length [''_id'', ''pileupType''])) [0, 1])),
       (\<lambda>a. if a \<in> set [0, 1]
            then fold AList.delete [''_id'', ''pileupType''] (alias_heap a) else alias_heap a))"
    by (rule stripKeys_repeats [THEN conjunct1, THEN mp, OF separate, THEN conjunct1])
  show ?thesis
    unfolding eq by (simp add: alias_heap_def AList.delete_eq)
qed

section \<open>The registry: supporting lemmas\<close>

lemma pop_fault_frame [simp]:
  "stored (snd (pop_fault w)) = stored w"
  "next_id (snd (pop_fault w)) = next_id w"
  "time_at (snd (pop_fault w)) = time_at w"
  "reads (snd (pop_fault w)) = reads w"
  by (simp_all add: pop_fault_def split: list.splits)

lemma strip_id_eq: "strip_id doc = AList.delete ''_id'' doc"
  by (cases "doc = []") (simp_all add: strip_id_def stripKeys_def)

lemma getPileup_eq:
  "getPileup spec projection w =
     (case fst (pop_fault w) of
        Some m \<Rightarrow> (Inl (PyMongoError m), snd (pop_fault w))
      | None \<Rightarrow> (Inr (map (\<lambda>d. AList.delete ''_id'' (project projection d))
                        (filter (matches spec) (stored w))), snd (pop_fault w)))"
  by (simp add: getPileup_def dbColl_find_def split_def strip_id_eq comp_def split: option.splits)

lemma getPileup_no_id:
  "getPileup spec projection w = (Inr results, w') \<Longrightarrow> d \<in> set results \<Longrightarrow> ''_id'' \<notin> fst ` set d"
proof -
  assume "getPileup spec projection w = (Inr results, w')" and "d \<in> set results"
  then obtain x where "d = AList.delete ''_id'' (project projection x)"
    by (auto simp: getPileup_eq split: option.splits)
  then show ?thesis
    by (simp add: delete_notin_dom)
qed

lemma matches_pileupName:
  "matches [(''pileupName'', v)] d = (map_of d ''pileupName'' = Some v)"
  by (simp add: matches_def)

lemma createPileup_success:
  assumes "createPileup ds valid pdict w = (Inr [], w1)"
  defines "D \<equiv> init_data pdict (time_at w (reads w)) (time_at w (reads w + 1))
                  (time_at w (reads w + 2)) (time_at w (reads w + 3))"
  shows "stored w1 = stored w @ [D @ [(''_id'', PObjectId (next_id w))]]"
    and "\<forall>d \<in> set (stored w). map_of d ''pileupName'' \<noteq> map_of D ''pileupName''"
    and "fst (validate ds \<lparr>data = D, validRSEs = valid\<rparr> (Some D))"
proof -
  let ?self = "\<lparr>data = D, validRSEs = valid\<rparr>"
  let ?w0 = "w\<lparr>reads := reads w + 4\<rparr>"
  have init: "MSPileupObj_init ds pdict (Some valid) w =
      (if fst (validate ds ?self (Some D)) then Inr ?self
       else Inl (PyException (snd (validate ds ?self (Some D)))), ?w0)"
    by (simp add: MSPileupObj_init_eq D_def Let_def)
  show ok: "fst (validate ds ?self (Some D))"
    using assms(1) by (auto simp: createPileup_def init error_def split: if_splits)
  have noid: "''_id'' \<notin> set (map fst D)"
    by (simp add: D_def init_data_keys schema_def)
  have pn: "map_of (D @ [(''_id'', PObjectId (next_id w))]) ''pileupName'' = map_of D ''pileupName''"
    by (simp add: D_def init_data_def)
  from assms(1) ok have "\<exists>u doc. dbColl_insert_one D ?w0 = (Inr u, doc, w1)"
    by (auto simp: createPileup_def init getPileupData_def error_def
        split: prod.splits sum.splits exn.splits)
  then obtain u doc where ins: "dbColl_insert_one D ?w0 = (Inr u, doc, w1)" by blast
  then show "stored w1 = stored w @ [D @ [(''_id'', PObjectId (next_id w))]]"
    using noid by (auto simp: dbColl_insert_one_def Let_def split_def split: option.splits if_splits)
  from ins show "\<forall>d \<in> set (stored w). map_of d ''pileupName'' \<noteq> map_of D ''pileupName''"
    using noid pn by (auto simp: dbColl_insert_one_def Let_def split_def split: option.splits if_splits)
qed

lemma create_then_read:
  assumes "createPileup ds valid pdict w = (Inr [], w1)" and "no_fault w1"
  shows "fst (getPileup [(''pileupName'', pdict_get pdict ''pileupName'' (PStr ''''))] None w1) =
     Inr [init_data pdict (time_at w (reads w)) (time_at w (reads w + 1))
            (time_at w (reads w + 2)) (time_at w (reads w + 3))]"
proof -
  let ?D = "init_data pdict (time_at w (reads w)) (time_at w (reads w + 1))
                  (time_at w (reads w + 2)) (time_at w (reads w + 3))"
  let ?name = "pdict_get pdict ''pileupName'' (PStr '''')"
  let ?doc = "?D @ [(''_id'', PObjectId (next_id w))]"
  note cs = createPileup_success [OF assms(1)]
  have name: "map_of ?D ''pileupName'' = Some ?name"
    by (simp add: init_data_def)
  have name': "map_of ?doc ''pileupName'' = Some ?name"
    by (simp add: init_data_def)
  have "filter (matches [(''pileupName'', ?name)]) (stored w) = []"
    using cs(2) name by (auto simp: matches_pileupName filter_empty_conv)
  then have found: "filter (matches [(''pileupName'', ?name)]) (stored w1) = [?doc]"
    using name' by (simp add: cs(1) matches_pileupName)
  have noid: "''_id'' \<notin> fst ` set ?D"
    using init_data_keys [of pdict] by (simp add: schema_def flip: set_map)
  then have "AList.delete ''_id'' ?D = ?D"
    by (rule delete_id)
  moreover have "AList.delete ''_id'' ?doc = AList.delete ''_id'' ?D @ []"
    by (simp add: AList.delete_eq)
  ultimately have "AList.delete ''_id'' ?doc = ?D"
    by simp
  with found assms(2) show ?thesis
    by (simp add: getPileup_eq no_fault_def project_def)
qed

lemma map_of_set_fields:
  "map_of (set_fields upd d) k = (case map_of upd k of None \<Rightarrow> map_of d k | Some v \<Rightarrow> Some v)"
  by (simp add: set_fields_def merge_conv' map_add_def)

lemma updatePileup_falsy:
  "\<not> truthy (pdict_get doc ''pileupName'' (PStr '''')) \<Longrightarrow>
   updatePileup doc w =
     (Inr [(KeyNotFound, doc, NoDocumentFor (pdict_get doc ''pileupName'' (PStr '''')))], w)"
  by (simp add: updatePileup_def Let_def error_def MSPileupNoKeyFoundError_def)

lemma updatePileup_lookup:
  assumes "truthy (pdict_get doc ''pileupName'' (PStr ''''))"
  shows "updatePileup doc w =
     (let pname = pdict_get doc ''pileupName'' (PStr '''');
          spec = [(''pileupName'', pname)];
          n = length (filter (matches spec) (stored w));
          w1 = snd (pop_fault w)
      in case fst (pop_fault w) of
           Some m \<Rightarrow> (Inl (PyMongoError m), w1)
         | None \<Rightarrow>
             if n = 0 then (Inr [(KeyNotFound, spec, NoDocumentForQuery spec)], w1)
             else if n \<noteq> 1 then (Inr [(UniqueConstraintViolated, spec, UniqueConstrain pname)], w1)
             else
               (let doc' = AList.update ''lastUpdateTime'' (PInt (time_at w (reads w))) doc
                in case dbColl_update_one spec doc' (w1\<lparr>reads := Suc (reads w)\<rparr>) of
                     (Inl ex, w3) \<Rightarrow> (Inr [(StoreError, doc', FailedToInsert doc' ex)], w3)
                   | (Inr u, w3) \<Rightarrow> (Inr [], w3)))"
  using assms
  by (simp add: updatePileup_def getPileup_eq Let_def error_def gmtimeSeconds_def
      MSPileupNoKeyFoundError_def MSPileupUniqueConstrainError_def MSPileupDatabaseError_def
      split: option.splits prod.splits sum.splits)

lemma update_one_success:
  assumes "dbColl_update_one spec upd w = (Inr u, w')"
    and "List.extract (matches spec) (stored w) = Some (before, d, after)"
  shows "stored w' = before @ set_fields upd d # after"
  using assms
  by (auto simp: dbColl_update_one_def Let_def split_def split: option.splits if_splits)

lemma single_match_extract:
  assumes "length (filter P xs) = 1"
  shows "\<exists>before d after. List.extract P xs = Some (before, d, after) \<and> xs = before @ d # after
      \<and> P d \<and> (\<forall>e \<in> set (before @ after). \<not> P e)"
proof -
  from assms have "\<exists>x \<in> set xs. P x"
    by (metis filter_False length_0_conv zero_neq_one)
  then obtain before d after where ex: "List.extract P xs = Some (before, d, after)"
    by (metis extract_None_iff not_Some_eq prod_cases3)
  then have split: "xs = before @ d # after" "P d" "\<forall>e \<in> set before. \<not> P e"
    by (auto simp: extract_Some_iff)
  with assms have "filter P after = []"
    by (simp add: filter_empty_conv[THEN iffD2])
  with ex split show ?thesis
    by (auto simp: filter_empty_conv)
qed

lemma updatePileup_found:
  assumes "truthy (pdict_get doc ''pileupName'' (PStr ''''))" and "no_fault w"
  shows "updatePileup doc w =
     (let pname = pdict_get doc ''pileupName'' (PStr '''');
          spec = [(''pileupName'', pname)];
          n = length (filter (matches spec) (stored w));
          w1 = snd (pop_fault w)
      in if n = 0 then (Inr [(KeyNotFound, spec, NoDocumentForQuery spec)], w1)
         else if n \<noteq> 1 then (Inr [(UniqueConstraintViolated, spec, UniqueConstrain pname)], w1)
         else
           (let doc' = AList.update ''lastUpdateTime'' (PInt (time_at w (reads w))) doc
            in case dbColl_update_one spec doc' (w1\<lparr>reads := Suc (reads w)\<rparr>) of
                 (Inl ex, w3) \<Rightarrow> (Inr [(StoreError, doc', FailedToInsert doc' ex)], w3)
               | (Inr u, w3) \<Rightarrow> (Inr [], w3)))"
  using assms by (simp add: updatePileup_lookup no_fault_def Let_def)

lemma deletePileup_cases:
  "deletePileup spec w =
     (case dbColl_delete_one spec w of
        (Inl ex, w1) \<Rightarrow> (Inr [(StoreError, spec, UnableToDelete spec ex)], w1)
      | (Inr u, w1) \<Rightarrow> (Inr [], w1))"
  by (simp add: deletePileup_def error_def MSPileupDatabaseError_def split: prod.splits sum.splits)

lemma deletePileup_returns:
  "\<exists>errs w'. deletePileup spec w = (Inr errs, w') \<and> (errs = [] \<or> (\<exists>d m. errs = [(StoreError, d, m)]))"
  by (auto simp: deletePileup_cases split: prod.splits sum.splits)

lemma updatePileup_returns:
  assumes "no_fault w"
  shows "\<exists>errs w'. updatePileup doc w = (Inr errs, w')
      \<and> (errs = [] \<or> (\<exists>k d m. errs = [(k, d, m)]
            \<and> (k = KeyNotFound \<or> k = UniqueConstraintViolated \<or> k = StoreError)))"
proof (cases "truthy (pdict_get doc ''pileupName'' (PStr ''''))")
  case False
  then show ?thesis by (simp add: updatePileup_falsy)
next
  case True
  show ?thesis
    unfolding updatePileup_found [OF True assms] Let_def
    by (simp split: prod.splits sum.splits)
qed

lemma no_fault_frame [simp]:
  "no_fault (w\<lparr>reads := r\<rparr>) = no_fault w"
  "no_fault (w\<lparr>next_id := i\<rparr>) = no_fault w"
  by (simp_all add: no_fault_def pop_fault_def split: list.splits)

lemma insert_one_no_fault:
  assumes "no_fault w"
  shows "(\<exists>doc' w'. dbColl_insert_one doc w = (Inl DuplicateKeyError, doc', w'))
       \<or> (\<exists>doc' w'. dbColl_insert_one doc w = (Inr (), doc', w'))"
proof (cases "''_id'' \<in> set (map fst doc)")
  case True
  with assms show ?thesis
    by (simp add: dbColl_insert_one_def no_fault_def split_def Let_def)
next
  case False
  from assms have "no_fault (w\<lparr>next_id := Suc (next_id w)\<rparr>)"
    by simp
  then have "fst (pop_fault (w\<lparr>next_id := Suc (next_id w)\<rparr>)) = None"
    by (simp only: no_fault_def)
  with False show ?thesis
    by (simp add: dbColl_insert_one_def split_def Let_def)
qed

lemma createPileup_returns:
  assumes "no_fault w"
  shows "\<exists>errs w'. createPileup ds valid pdict w = (Inr errs, w')
      \<and> (errs = [] \<or> (\<exists>d m. errs = [(DuplicateDocument, d, m)]))"
proof (cases "MSPileupObj_init ds pdict (Some valid) w")
  case (Pair r w0)
  then have w0: "w0 = w\<lparr>reads := reads w + 4\<rparr>"
    by (simp add: MSPileupObj_init_eq Let_def)
  show ?thesis
  proof (cases r)
    case (Inl ex)
    with Pair show ?thesis
      by (simp add: createPileup_def error_def MSPileupDuplicateDocumentError_def)
  next
    case (Inr obj)
    from assms have "no_fault w0" by (simp add: w0)
    from insert_one_no_fault [OF this, of "getPileupData obj"] Pair Inr show ?thesis
      by (auto simp: createPileup_def error_def MSPileupDuplicateDocumentError_def)
  qed
qed

section \<open>The registry: time stamps of an update\<close>

text \<open>
  C2, as stated, fails. The record created from \<open>future_pdict\<close> has the
  \<open>lastUpdateTime\<close> that its candidate brought, later than the clock; the update with
  \<open>changes\<close>, which names the record and carries an \<open>insertTime\<close>, succeeds and
  leaves the record with a smaller \<open>lastUpdateTime\<close>, the reading of the clock, and
  with the \<open>insertTime\<close> of the update document.
\<close>

theorem update_overwrites_times_counterexample:
  "fst (createPileup dataset_pattern sample_valid future_pdict sample_world) = Inr []
   \<and> stored (snd (createPileup dataset_pattern sample_valid future_pdict sample_world)) = [future_doc]
   \<and> stored future_world = [future_doc]
   \<and> map_of future_doc ''insertTime'' = Some (PInt 1700000000)
   \<and> map_of future_doc ''lastUpdateTime'' = Some (PInt 1800000000)
   \<and> fst (updatePileup changes future_world) = Inr []
   \<and> stored (snd (updatePileup changes future_world)) = [changed_doc]
   \<and> map_of changed_doc ''insertTime'' = Some (PInt 5)
   \<and> map_of changed_doc ''lastUpdateTime'' = Some (PInt 1700000004)"
  by code_simp

text \<open>
  C2, amended: for every update that succeeds (\<open>updatePileup\<close> called with a document
  whose \<open>pileupName\<close> matches exactly one stored record, the write going through), the
  \<open>lastUpdateTime\<close> of the stored record after the update is the reading of the clock
  taken by the update, hence greater than or equal to its previous \<open>lastUpdateTime\<close>
  whenever that value is not ahead of the clock; and its \<open>insertTime\<close> is unchanged
  whenever the input document has no \<open>insertTime\<close> or repeats the stored one. No other
  record changes.
\<close>

theorem updatePileup_stamps_time:
  assumes "updatePileup doc w = (Inr [], w')"
  shows "\<exists>before old after new.
      stored w = before @ old # after \<and> stored w' = before @ new # after
      \<and> map_of old ''pileupName'' = Some (pdict_get doc ''pileupName'' (PStr ''''))
      \<and> (\<forall>e \<in> set (before @ after).
            map_of e ''pileupName'' \<noteq> Some (pdict_get doc ''pileupName'' (PStr '''')))
      \<and> map_of new ''lastUpdateTime'' = Some (PInt (time_at w (reads w)))
      \<and> (\<forall>t. map_of old ''lastUpdateTime'' = Some (PInt t) \<and> t \<le> time_at w (reads w)
            \<longrightarrow> (\<exists>t'. map_of new ''lastUpdateTime'' = Some (PInt t') \<and> t \<le> t'))
      \<and> (map_of doc ''insertTime'' = None \<or> map_of doc ''insertTime'' = map_of old ''insertTime''
            \<longrightarrow> map_of new ''insertTime'' = map_of old ''insertTime'')"
proof -
  let ?pname = "pdict_get doc ''pileupName'' (PStr '''')"
  let ?spec = "[(''pileupName'', ?pname)]"
  let ?doc' = "AList.update ''lastUpdateTime'' (PInt (time_at w (reads w))) doc"
  let ?w2 = "(snd (pop_fault w))\<lparr>reads := Suc (reads w)\<rparr>"
  have t: "truthy ?pname"
  proof (rule ccontr)
    assume "\<not> truthy ?pname"
    from updatePileup_falsy [OF this, of w] assms show False by simp
  qed
  from assms have one: "length (filter (matches ?spec) (stored w)) = 1"
    and "\<exists>u. dbColl_update_one ?spec ?doc' ?w2 = (Inr u, w')"
    by (auto simp: updatePileup_lookup [OF t] Let_def
        split: option.splits if_splits prod.splits sum.splits)
  then obtain u where upd: "dbColl_update_one ?spec ?doc' ?w2 = (Inr u, w')" by blast
  from single_match_extract [OF one] obtain before d after
    where ex: "List.extract (matches ?spec) (stored w) = Some (before, d, after)"
      and split: "stored w = before @ d # after" "matches ?spec d"
        "\<forall>e \<in> set (before @ after). \<not> matches ?spec e"
    by blast
  from ex have "List.extract (matches ?spec) (stored ?w2) = Some (before, d, after)" by simp
  from update_one_success [OF upd this]
  have new: "stored w' = before @ set_fields ?doc' d # after" .
  have stamp: "map_of (set_fields ?doc' d) ''lastUpdateTime'' = Some (PInt (time_at w (reads w)))"
    by (simp add: map_of_set_fields update_conv')
  have ins: "map_of (set_fields ?doc' d) ''insertTime'' =
      (case map_of doc ''insertTime'' of None \<Rightarrow> map_of d ''insertTime'' | Some v \<Rightarrow> Some v)"
    by (simp add: map_of_set_fields update_conv')
  have keep: "map_of doc ''insertTime'' = None \<or> map_of doc ''insertTime'' = map_of d ''insertTime''
      \<longrightarrow> map_of (set_fields ?doc' d) ''insertTime'' = map_of d ''insertTime''"
    unfolding ins by (auto split: option.splits)
  show ?thesis
  proof (intro exI conjI)
    show "stored w = before @ d # after" by (rule split(1))
    show "stored w' = before @ set_fields ?doc' d # after" by (rule new)
    show "map_of d ''pileupName'' = Some ?pname"
      using split(2) by (simp add: matches_pileupName)
    show "\<forall>e \<in> set (before @ after). map_of e ''pileupName'' \<noteq> Some ?pname"
      using split(3) by (simp add: matches_pileupName)
    show "map_of (set_fields ?doc' d) ''lastUpdateTime'' = Some (PInt (time_at w (reads w)))"
      by (rule stamp)
    show "\<forall>t. map_of d ''lastUpdateTime'' = Some (PInt t) \<and> t \<le> time_at w (reads w)
            \<longrightarrow> (\<exists>t'. map_of (set_fields ?doc' d) ''lastUpdateTime'' = Some (PInt t') \<and> t \<le> t')"
      using stamp by simp
    show "map_of doc ''insertTime'' = None \<or> map_of doc ''insertTime'' = map_of d ''insertTime''
      \<longrightarrow> map_of (set_fields ?doc' d) ''insertTime'' = map_of d ''insertTime''"
      by (rule keep)
  qed
qed

theorem updatePileup_stamps_time_witness:
  "\<exists>before old after new.
      stored stored_world = before @ old # after
      \<and> stored (snd (updatePileup activate stored_world)) = before @ new # after
      \<and> map_of old ''pileupName'' = Some (pdict_get activate ''pileupName'' (PStr ''''))
      \<and> (\<forall>e \<in> set (before @ after).
            map_of e ''pileupName'' \<noteq> Some (pdict_get activate ''pileupName'' (PStr '''')))
      \<and> map_of new ''lastUpdateTime'' = Some (PInt (time_at stored_world (reads stored_world)))
      \<and> (\<forall>t. map_of old ''lastUpdateTime'' = Some (PInt t) \<and> t \<le> time_at stored_world (reads stored_world)
            \<longrightarrow> (\<exists>t'. map_of new ''lastUpdateTime'' = Some (PInt t') \<and> t \<le> t'))
      \<and> (map_of activate ''insertTime'' = None \<or> map_of activate ''insertTime'' = map_of old ''insertTime''
            \<longrightarrow> map_of new ''insertTime'' = map_of old ''insertTime'')"
proof -
  have "fst (updatePileup activate stored_world) = Inr []"
    by code_simp
  then have "updatePileup activate stored_world = (Inr [], snd (updatePileup activate stored_world))"
    by (metis prod.collapse)
  then show ?thesis
    by (rule updatePileup_stamps_time)
qed

section \<open>The registry: reading back\<close>

text \<open>
  C8: no document returned by \<open>getPileup\<close> has the identifier field \<open>_id\<close> of the
  store, whatever the query and the projection; and after a successful \<open>createPileup\<close>,
  a read by the \<open>pileupName\<close> of the created record that the store answers returns
  exactly one document, equal to the created one in each of its 15 fields (the stored
  document has the identifier as a sixteenth).
\<close>

theorem getPileup_round_trip:
  "(getPileup spec projection w = (Inr results, w') \<longrightarrow> (\<forall>d \<in> set results. ''_id'' \<notin> fst ` set d))
   \<and> (createPileup ds valid pdict w = (Inr [], w1) \<and> no_fault w1 \<longrightarrow>
        (let created = init_data pdict (time_at w (reads w)) (time_at w (reads w + 1))
                         (time_at w (reads w + 2)) (time_at w (reads w + 3))
         in fst (getPileup [(''pileupName'', pdict_get pdict ''pileupName'' (PStr ''''))] None w1)
              = Inr [created]
            \<and> map fst created = map fst schema
            \<and> stored w1 = stored w @ [created @ [(''_id'', PObjectId (next_id w))]]))"
proof (intro conjI impI ballI)
  fix d assume "getPileup spec projection w = (Inr results, w')" and "d \<in> set results"
  then show "''_id'' \<notin> fst ` set d" by (rule getPileup_no_id)
next
  assume a: "createPileup ds valid pdict w = (Inr [], w1) \<and> no_fault w1"
  then show "let created = init_data pdict (time_at w (reads w)) (time_at w (reads w + 1))
                         (time_at w (reads w + 2)) (time_at w (reads w + 3))
         in fst (getPileup [(''pileupName'', pdict_get pdict ''pileupName'' (PStr ''''))] None w1)
              = Inr [created]
            \<and> map fst created = map fst schema
            \<and> stored w1 = stored w @ [created @ [(''_id'', PObjectId (next_id w))]]"
    using create_then_read [of ds valid pdict w w1] createPileup_success(1) [of ds valid pdict w w1]
    by (simp add: Let_def init_data_keys)
qed

theorem getPileup_round_trip_witness:
  "fst (getPileup [(''pileupName'', PStr ''/A/B/C'')] None
         (snd (createPileup dataset_pattern sample_valid sample_pdict sample_world)))
     = Inr [sample_data]
   \<and> ''_id'' \<notin> fst ` set sample_data"
proof -
  let ?w1 = "snd (createPileup dataset_pattern sample_valid sample_pdict sample_world)"
  have "fst (createPileup dataset_pattern sample_valid sample_pdict sample_world) = Inr []"
    by code_simp
  then have created: "createPileup dataset_pattern sample_valid sample_pdict sample_world = (Inr [], ?w1)"
    by (metis prod.collapse)
  have "no_fault ?w1"
    by code_simp
  with created have h: "createPileup dataset_pattern sample_valid sample_pdict sample_world = (Inr [], ?w1)
      \<and> no_fault ?w1"
    by simp
  have name: "pdict_get sample_pdict ''pileupName'' (PStr '''') = PStr ''/A/B/C''"
    by code_simp
  have doc: "init_data sample_pdict (time_at sample_world (reads sample_world))
      (time_at sample_world (reads sample_world + 1)) (time_at sample_world (reads sample_world + 2))
      (time_at sample_world (reads sample_world + 3)) = sample_data"
    by code_simp
  from getPileup_round_trip [THEN conjunct2, THEN mp, OF h]
  have read: "fst (getPileup [(''pileupName'', PStr ''/A/B/C'')] None ?w1) = Inr [sample_data]"
    unfolding Let_def name doc by (rule conjunct1)
  then have "getPileup [(''pileupName'', PStr ''/A/B/C'')] None ?w1
      = (Inr [sample_data], snd (getPileup [(''pileupName'', PStr ''/A/B/C'')] None ?w1))"
    by (metis prod.collapse)
  from getPileup_round_trip [THEN conjunct1, THEN mp, OF this]
  have "\<forall>d \<in> set [sample_data]. ''_id'' \<notin> fst ` set d" .
  then have "''_id'' \<notin> fst ` set sample_data"
    by simp
  with read show ?thesis by (rule conjI)
qed

section \<open>The registry: lookup of an update\<close>

text \<open>
  C4: for every input document, \<open>updatePileup\<close> returns exactly one \<open>KeyNotFound\<close>
  error when the \<open>pileupName\<close> of the document is absent or empty (or any other false
  value), without a round trip to the store. When the name is non-empty and the store
  answers the lookup, it returns exactly one \<open>KeyNotFound\<close> error if no stored record
  matches, exactly one \<open>UniqueConstraintViolated\<close> error if more than one matches, in
  both cases leaving the documents of the store unchanged, and it goes on to the write
  of the time-stamped document if exactly one matches. The documents of the store change
  only in this last case.
\<close>

theorem updatePileup_cases:
  "(let pname = pdict_get doc ''pileupName'' (PStr '''');
        spec = [(''pileupName'', pname)];
        n = length (filter (matches spec) (stored w));
        w1 = snd (pop_fault w)
    in (map_of doc ''pileupName'' = None \<or> map_of doc ''pileupName'' = Some (PStr '''')
          \<longrightarrow> \<not> truthy pname)
     \<and> (\<not> truthy pname
          \<longrightarrow> updatePileup doc w = (Inr [(KeyNotFound, doc, NoDocumentFor pname)], w))
     \<and> (truthy pname \<and> no_fault w \<and> n = 0
          \<longrightarrow> updatePileup doc w = (Inr [(KeyNotFound, spec, NoDocumentForQuery spec)], w1)
              \<and> stored w1 = stored w)
     \<and> (truthy pname \<and> no_fault w \<and> 1 < n
          \<longrightarrow> updatePileup doc w = (Inr [(UniqueConstraintViolated, spec, UniqueConstrain pname)], w1)
              \<and> stored w1 = stored w)
     \<and> (truthy pname \<and> no_fault w \<and> n = 1
          \<longrightarrow> updatePileup doc w =
                (let doc' = AList.update ''lastUpdateTime'' (PInt (time_at w (reads w))) doc
                 in case dbColl_update_one spec doc' (w1\<lparr>reads := Suc (reads w)\<rparr>) of
                      (Inl ex, w3) \<Rightarrow> (Inr [(StoreError, doc', FailedToInsert doc' ex)], w3)
                    | (Inr u, w3) \<Rightarrow> (Inr [], w3)))
     \<and> (stored (snd (updatePileup doc w)) \<noteq> stored w \<longrightarrow> truthy pname \<and> no_fault w \<and> n = 1))"
proof -
  let ?pname = "pdict_get doc ''pileupName'' (PStr '''')"
  let ?spec = "[(''pileupName'', ?pname)]"
  let ?n = "length (filter (matches ?spec) (stored w))"
  let ?doc' = "AList.update ''lastUpdateTime'' (PInt (time_at w (reads w))) doc"
  have absent: "map_of doc ''pileupName'' = None \<or> map_of doc ''pileupName'' = Some (PStr '''')
      \<longrightarrow> \<not> truthy ?pname"
    by (auto simp: pdict_get_def)
  have falsy: "\<not> truthy ?pname
      \<longrightarrow> updatePileup doc w = (Inr [(KeyNotFound, doc, NoDocumentFor ?pname)], w)"
    by (simp add: updatePileup_falsy)
  have found: "truthy ?pname \<and> no_fault w \<Longrightarrow>
      updatePileup doc w =
        (if ?n = 0 then (Inr [(KeyNotFound, ?spec, NoDocumentForQuery ?spec)], snd (pop_fault w))
         else if ?n \<noteq> 1
         then (Inr [(UniqueConstraintViolated, ?spec, UniqueConstrain ?pname)], snd (pop_fault w))
         else
           (let doc' = AList.update ''lastUpdateTime'' (PInt (time_at w (reads w))) doc
            in case dbColl_update_one ?spec doc' ((snd (pop_fault w))\<lparr>reads := Suc (reads w)\<rparr>) of
                 (Inl ex, w3) \<Rightarrow> (Inr [(StoreError, doc', FailedToInsert doc' ex)], w3)
               | (Inr u, w3) \<Rightarrow> (Inr [], w3)))"
    by (simp add: updatePileup_lookup no_fault_def Let_def)
  have only: "stored (snd (updatePileup doc w)) \<noteq> stored w
      \<longrightarrow> truthy ?pname \<and> no_fault w \<and> ?n = 1"
  proof (cases "truthy ?pname \<and> no_fault w")
    case False
    have "stored (snd (updatePileup doc w)) = stored w"
    proof (cases "truthy ?pname")
      case False
      then show ?thesis by (simp add: updatePileup_falsy)
    next
      case True
      with \<open>\<not> (truthy ?pname \<and> no_fault w)\<close> obtain m where "fst (pop_fault w) = Some m"
        by (auto simp: no_fault_def)
      with True show ?thesis
        by (simp add: updatePileup_lookup Let_def)
    qed
    then show ?thesis by simp
  next
    case True
    show ?thesis
    proof (cases "?n = 1")
      case one: True
      with True show ?thesis by simp
    next
      case False
      then have "stored (snd (updatePileup doc w)) = stored w"
        by (simp add: found [OF True])
      then show ?thesis by simp
    qed
  qed
  show ?thesis
    unfolding Let_def
  proof (intro conjI impI)
    assume "map_of doc ''pileupName'' = None \<or> map_of doc ''pileupName'' = Some (PStr '''')"
    with absent show "\<not> truthy ?pname" by blast
  next
    assume "\<not> truthy ?pname"
    with falsy show "updatePileup doc w = (Inr [(KeyNotFound, doc, NoDocumentFor ?pname)], w)"
      by blast
  next
    assume a: "truthy ?pname \<and> no_fault w \<and> ?n = 0"
    then have "truthy ?pname \<and> no_fault w" by simp
    from found [OF this] a
    show "updatePileup doc w = (Inr [(KeyNotFound, ?spec, NoDocumentForQuery ?spec)], snd (pop_fault w))"
      by simp
    show "stored (snd (pop_fault w)) = stored w" by simp
  next
    assume a: "truthy ?pname \<and> no_fault w \<and> 1 < ?n"
    then have "truthy ?pname \<and> no_fault w" by simp
    moreover from a have "filter (matches ?spec) (stored w) \<noteq> []" by auto
    ultimately show "updatePileup doc w =
        (Inr [(UniqueConstraintViolated, ?spec, UniqueConstrain ?pname)], snd (pop_fault w))"
      using found a by simp
    show "stored (snd (pop_fault w)) = stored w" by simp
  next
    assume a: "truthy ?pname \<and> no_fault w \<and> ?n = 1"
    then have "truthy ?pname \<and> no_fault w" by simp
    from found [OF this] a
    show "updatePileup doc w =
        (case dbColl_update_one ?spec ?doc' ((snd (pop_fault w))\<lparr>reads := Suc (reads w)\<rparr>) of
           (Inl ex, w3) \<Rightarrow> (Inr [(StoreError, ?doc', FailedToInsert ?doc' ex)], w3)
         | (Inr u, w3) \<Rightarrow> (Inr [], w3))"
      by (simp add: Let_def)
  next
    assume "stored (snd (updatePileup doc w)) \<noteq> stored w"
    with only show "truthy ?pname" and "no_fault w" and "?n = 1" by blast+
  qed
qed

theorem updatePileup_cases_witness:
  "fst (updatePileup unnamed stored_world)
     = Inr [(KeyNotFound, unnamed, NoDocumentFor (PStr ''''))]
   \<and> fst (updatePileup missing stored_world)
     = Inr [(KeyNotFound, [(''pileupName'', PStr ''/X/Y/Z'')],
             NoDocumentForQuery [(''pileupName'', PStr ''/X/Y/Z'')])]
   \<and> fst (updatePileup activate twin_world)
     = Inr [(UniqueConstraintViolated, [(''pileupName'', PStr ''/A/B/C'')],
             UniqueConstrain (PStr ''/A/B/C''))]
   \<and> fst (updatePileup activate stored_world) = Inr []"
proof -
  note cases = updatePileup_cases [unfolded Let_def]
  have name0: "pdict_get unnamed ''pileupName'' (PStr '''') = PStr ''''"
    and name1: "pdict_get missing ''pileupName'' (PStr '''') = PStr ''/X/Y/Z''"
    and name2: "pdict_get activate ''pileupName'' (PStr '''') = PStr ''/A/B/C''"
    by code_simp+
  have h0: "\<not> truthy (pdict_get unnamed ''pileupName'' (PStr ''''))"
    by code_simp
  have h1: "truthy (pdict_get missing ''pileupName'' (PStr '''')) \<and> no_fault stored_world
      \<and> length (filter (matches [(''pileupName'', pdict_get missing ''pileupName'' (PStr ''''))])
           (stored stored_world)) = 0"
    by code_simp
  have h2: "truthy (pdict_get activate ''pileupName'' (PStr '''')) \<and> no_fault twin_world
      \<and> 1 < length (filter (matches [(''pileupName'', pdict_get activate ''pileupName'' (PStr ''''))])
           (stored twin_world))"
    by code_simp
  have h3: "truthy (pdict_get activate ''pileupName'' (PStr '''')) \<and> no_fault stored_world
      \<and> length (filter (matches [(''pileupName'', pdict_get activate ''pileupName'' (PStr ''''))])
           (stored stored_world)) = 1"
    by code_simp
  have 0: "fst (updatePileup unnamed stored_world)
      = Inr [(KeyNotFound, unnamed, NoDocumentFor (PStr ''''))]"
    using cases [THEN conjunct2, THEN conjunct1, THEN mp, OF h0, of stored_world]
    by (simp add: name0)
  have 1: "fst (updatePileup missing stored_world)
      = Inr [(KeyNotFound, [(''pileupName'', PStr ''/X/Y/Z'')],
             NoDocumentForQuery [(''pileupName'', PStr ''/X/Y/Z'')])]"
    using cases [THEN conjunct2, THEN conjunct2, THEN conjunct1, THEN mp, OF h1]
    by (simp add: name1)
  have 2: "fst (updatePileup activate twin_world)
      = Inr [(UniqueConstraintViolated, [(''pileupName'', PStr ''/A/B/C'')],
              UniqueConstrain (PStr ''/A/B/C''))]"
    using cases [THEN conjunct2, THEN conjunct2, THEN conjunct2, THEN conjunct1, THEN mp, OF h2]
    by (simp add: name2)
  have 3: "fst (updatePileup activate stored_world) = Inr []"
    unfolding cases [THEN conjunct2, THEN conjunct2, THEN conjunct2, THEN conjunct2,
        THEN conjunct1, THEN mp, OF h3]
    by code_simp
  from 0 1 2 3 show ?thesis by blast
qed

section \<open>The registry: errors and exceptions\<close>

text \<open>
  C1, as stated, fails: when the round trip of the read fails, \<open>getPileup\<close> raises
  the error of the driver, and so does \<open>updatePileup\<close>, whose lookup is that read;
  \<open>createPileup\<close> handles the duplicate-key error of the insert only, and any other
  failure of the insert leaves it as an exception.
\<close>

theorem registry_returns_errors_counterexample:
  "fst (getPileup [(''pileupName'', PStr ''/A/B/C'')] None (timed_out stored_world))
     = Inl (PyMongoError ''timed out'')
   \<and> fst (updatePileup activate (timed_out stored_world)) = Inl (PyMongoError ''timed out'')
   \<and> fst (createPileup dataset_pattern sample_valid sample_pdict (timed_out sample_world))
     = Inl (PyMongoError ''timed out'')"
  by code_simp

text \<open>
  C1, amended: \<open>deletePileup\<close> never raises; it returns the empty list, or exactly one
  \<open>StoreError\<close> when the store fails. \<open>updatePileup\<close> returns a list of at most one
  structured error whenever the store answers its lookup, and a failure of its write is
  surfaced once as a \<open>StoreError\<close>. \<open>createPileup\<close> returns the empty list or exactly
  one \<open>DuplicateDocument\<close> error whenever the round trip of its insert is answered,
  with success or with a duplicate key. \<open>getPileup\<close> returns the documents found, not
  errors, whenever the store answers the read.
\<close>

theorem registry_returns_errors:
  "(let pname = pdict_get doc ''pileupName'' (PStr '''');
        spec = [(''pileupName'', pname)];
        doc' = AList.update ''lastUpdateTime'' (PInt (time_at w (reads w))) doc
    in (\<exists>errs w'. deletePileup query w = (Inr errs, w')
          \<and> (errs = [] \<or> (\<exists>d m. errs = [(StoreError, d, m)])))
     \<and> (dbColl_delete_one query w = (Inl ex, w1)
          \<longrightarrow> deletePileup query w = (Inr [(StoreError, query, UnableToDelete query ex)], w1))
     \<and> (no_fault w
          \<longrightarrow> (\<exists>errs w'. updatePileup doc w = (Inr errs, w')
                \<and> (errs = [] \<or> (\<exists>k d m. errs = [(k, d, m)]
                      \<and> (k = KeyNotFound \<or> k = UniqueConstraintViolated \<or> k = StoreError)))))
     \<and> (truthy pname \<and> no_fault w \<and> length (filter (matches spec) (stored w)) = 1
          \<and> dbColl_update_one spec doc' ((snd (pop_fault w))\<lparr>reads := Suc (reads w)\<rparr>) = (Inl ex, w3)
          \<longrightarrow> updatePileup doc w = (Inr [(StoreError, doc', FailedToInsert doc' ex)], w3))
     \<and> (no_fault w
          \<longrightarrow> (\<exists>errs w'. createPileup ds valid pdict w = (Inr errs, w')
                \<and> (errs = [] \<or> (\<exists>d m. errs = [(DuplicateDocument, d, m)]))))
     \<and> (no_fault w \<longrightarrow> (\<exists>found w'. getPileup query projection w = (Inr found, w'))))"
  unfolding Let_def
proof (intro conjI impI)
  show "\<exists>errs w'. deletePileup query w = (Inr errs, w')
          \<and> (errs = [] \<or> (\<exists>d m. errs = [(StoreError, d, m)]))"
    by (rule deletePileup_returns)
next
  assume "dbColl_delete_one query w = (Inl ex, w1)"
  then show "deletePileup query w = (Inr [(StoreError, query, UnableToDelete query ex)], w1)"
    by (simp add: deletePileup_cases)
next
  assume "no_fault w"
  then show "\<exists>errs w'. updatePileup doc w = (Inr errs, w')
      \<and> (errs = [] \<or> (\<exists>k d m. errs = [(k, d, m)]
            \<and> (k = KeyNotFound \<or> k = UniqueConstraintViolated \<or> k = StoreError)))"
    by (rule updatePileup_returns)
next
  let ?pname = "pdict_get doc ''pileupName'' (PStr '''')"
  let ?spec = "[(''pileupName'', ?pname)]"
  let ?doc' = "AList.update ''lastUpdateTime'' (PInt (time_at w (reads w))) doc"
  assume a: "truthy ?pname \<and> no_fault w \<and> length (filter (matches ?spec) (stored w)) = 1
      \<and> dbColl_update_one ?spec ?doc' ((snd (pop_fault w))\<lparr>reads := Suc (reads w)\<rparr>) = (Inl ex, w3)"
  then have "truthy ?pname" and "no_fault w" by simp_all
  moreover from a have "filter (matches ?spec) (stored w) \<noteq> []" by auto
  ultimately show "updatePileup doc w = (Inr [(StoreError, ?doc', FailedToInsert ?doc' ex)], w3)"
    using a by (simp add: updatePileup_found Let_def)
next
  assume "no_fault w"
  then show "\<exists>errs w'. createPileup ds valid pdict w = (Inr errs, w')
      \<and> (errs = [] \<or> (\<exists>d m. errs = [(DuplicateDocument, d, m)]))"
    by (rule createPileup_returns)
next
  assume "no_fault w"
  then show "\<exists>found w'. getPileup query projection w = (Inr found, w')"
    by (simp add: getPileup_eq no_fault_def)
qed

theorem registry_returns_errors_witness:
  "fst (deletePileup missing (timed_out stored_world))
     = Inr [(StoreError, missing, UnableToDelete missing (PyMongoError ''timed out''))]
   \<and> (\<exists>errs w'. updatePileup activate stored_world = (Inr errs, w')
        \<and> (errs = [] \<or> (\<exists>k d m. errs = [(k, d, m)]
              \<and> (k = KeyNotFound \<or> k = UniqueConstraintViolated \<or> k = StoreError))))
   \<and> fst (updatePileup activate (write_timed_out stored_world))
     = Inr [(StoreError,
             AList.update ''lastUpdateTime'' (PInt 1700000004) activate,
             FailedToInsert (AList.update ''lastUpdateTime'' (PInt 1700000004) activate)
               (PyMongoError ''timed out''))]
   \<and> (\<exists>errs w'. createPileup dataset_pattern sample_valid sample_pdict stored_world = (Inr errs, w')
        \<and> (errs = [] \<or> (\<exists>d m. errs = [(DuplicateDocument, d, m)])))
   \<and> (\<exists>found w'. getPileup missing None stored_world = (Inr found, w'))"
proof -
  note returns = registry_returns_errors [unfolded Let_def]
  have ok: "no_fault stored_world"
    by code_simp
  have "fst (dbColl_delete_one missing (timed_out stored_world)) = Inl (PyMongoError ''timed out'')"
    by code_simp
  then have del: "dbColl_delete_one missing (timed_out stored_world)
      = (Inl (PyMongoError ''timed out''), snd (dbColl_delete_one missing (timed_out stored_world)))"
    by (metis prod.collapse)
  have 1: "fst (deletePileup missing (timed_out stored_world))
      = Inr [(StoreError, missing, UnableToDelete missing (PyMongoError ''timed out''))]"
    using returns [THEN conjunct2, THEN conjunct1, THEN mp, OF del] by simp
  have 2: "\<exists>errs w'. updatePileup activate stored_world = (Inr errs, w')
        \<and> (errs = [] \<or> (\<exists>k d m. errs = [(k, d, m)]
              \<and> (k = KeyNotFound \<or> k = UniqueConstraintViolated \<or> k = StoreError)))"
    by (rule returns [THEN conjunct2, THEN conjunct2, THEN conjunct1, THEN mp, OF ok])
  let ?w = "write_timed_out stored_world"
  let ?spec = "[(''pileupName'', pdict_get activate ''pileupName'' (PStr ''''))]"
  let ?doc' = "AList.update ''lastUpdateTime'' (PInt (time_at ?w (reads ?w))) activate"
  let ?w2 = "(snd (pop_fault ?w))\<lparr>reads := Suc (reads ?w)\<rparr>"
  have now: "time_at ?w (reads ?w) = 1700000004"
    by code_simp
  have "fst (dbColl_update_one ?spec ?doc' ?w2) = Inl (PyMongoError ''timed out'')"
    by code_simp
  then have "dbColl_update_one ?spec ?doc' ?w2
      = (Inl (PyMongoError ''timed out''), snd (dbColl_update_one ?spec ?doc' ?w2))"
    by (metis prod.collapse)
  moreover have "truthy (pdict_get activate ''pileupName'' (PStr '''')) \<and> no_fault ?w
      \<and> length (filter (matches ?spec) (stored ?w)) = 1"
    by code_simp
  ultimately have failing: "truthy (pdict_get activate ''pileupName'' (PStr '''')) \<and> no_fault ?w
      \<and> length (filter (matches ?spec) (stored ?w)) = 1
      \<and> dbColl_update_one ?spec ?doc' ?w2
        = (Inl (PyMongoError ''timed out''), snd (dbColl_update_one ?spec ?doc' ?w2))"
    by simp
  have 3: "fst (updatePileup activate ?w)
     = Inr [(StoreError,
             AList.update ''lastUpdateTime'' (PInt 1700000004) activate,
             FailedToInsert (AList.update ''lastUpdateTime'' (PInt 1700000004) activate)
               (PyMongoError ''timed out''))]"
    using returns [THEN conjunct2, THEN conjunct2, THEN conjunct2, THEN conjunct1, THEN mp, OF failing]
    by (simp add: now)
  have 4: "\<exists>errs w'. createPileup dataset_pattern sample_valid sample_pdict stored_world = (Inr errs, w')
        \<and> (errs = [] \<or> (\<exists>d m. errs = [(DuplicateDocument, d, m)]))"
    by (rule returns [THEN conjunct2, THEN conjunct2, THEN conjunct2, THEN conjunct2,
          THEN conjunct1, THEN mp, OF ok])
  have 5: "\<exists>found w'. getPileup missing None stored_world = (Inr found, w')"
    by (rule returns [THEN conjunct2, THEN conjunct2, THEN conjunct2, THEN conjunct2,
          THEN conjunct2, THEN mp, OF ok])
  from 1 2 3 4 5 show ?thesis by blast
qed

end
